theory Spec2Isabelle
  imports Main
begin

section \<open>Inkflow: the configuration setup script (scripts/setup-config.py)\<close>

text \<open>
  The script asks eight questions on the terminal, derives the refresh interval in
  milliseconds, builds one nested dictionary and dumps it as JSON to
  \<^verbatim>\<open>data/config.json\<close>. The embedding below follows the script line by line:
  \<^item> a Python \<^verbatim>\<open>str\<close> is a \<^typ>\<open>string\<close>; a \<^typ>\<open>char\<close> stands for the code point of
    the same number, so the strings covered are those over the code points 0 to 255;
  \<^item> a Python \<^verbatim>\<open>int\<close> is an \<^typ>\<open>int\<close>, unbounded; the interpreter's limit on the
    number of digits converted between \<^verbatim>\<open>int\<close> and \<^verbatim>\<open>str\<close> is part of the model, at
    its default of 4300 digits;
  \<^item> the terminal and the file system are an explicit state, the record \<open>world\<close>;
    standard input is the sequence of lines still to be read, and reading past its end
    raises \<^verbatim>\<open>EOFError\<close>, as \<^verbatim>\<open>input()\<close> does;
  \<^item> an exception is the left injection of the result; the state reached when it was
    raised is returned with it.
\<close>

subsection \<open>Built-ins on strings: \<^verbatim>\<open>str.strip\<close> and \<^verbatim>\<open>int\<close>\<close>

text \<open>
  \<^verbatim>\<open>str.isspace\<close> on the code points below 256: TAB to CR, FS to US, the space,
  NEL (0x85) and the no-break space (0xA0).
\<close>

definition isspace :: "char \<Rightarrow> bool" where
  "isspace c =
     (let n = (of_char c :: nat)
      in (9 \<le> n \<and> n \<le> 13) \<or> (28 \<le> n \<and> n \<le> 32) \<or> n = 133 \<or> n = 160)"

text \<open>\<^verbatim>\<open>s.strip()\<close>: the string without its leading and trailing whitespace.\<close>

definition strip :: "string \<Rightarrow> string" where
  "strip s = rev (dropWhile isspace (rev (dropWhile isspace s)))"

text \<open>
  The whitespace that \<^verbatim>\<open>int(s)\<close> skips at both ends. The parser sees the ASCII
  characters as they are and tests them with the C-locale \<^verbatim>\<open>isspace\<close> (TAB to CR and
  the space); a non-ASCII space has been turned into an ASCII space before. So the
  separators FS to US, which \<^verbatim>\<open>strip\<close> removes, are not accepted by \<^verbatim>\<open>int\<close>.
\<close>

definition int_space :: "char \<Rightarrow> bool" where
  "int_space c =
     (let n = (of_char c :: nat)
      in (9 \<le> n \<and> n \<le> 13) \<or> n = 32 \<or> n = 133 \<or> n = 160)"

definition digit_val :: "char \<Rightarrow> nat option" where
  "digit_val c =
     (let n = (of_char c :: nat)
      in if 48 \<le> n \<and> n \<le> 57 then Some (n - 48) else None)"

text \<open>
  The digits after the first one, in base ten. A single underscore may stand between
  two digits; two in a row, or one at the end, are refused.
\<close>

fun more_digits :: "nat \<Rightarrow> string \<Rightarrow> nat option" where
  "more_digits acc [] = Some acc"
| "more_digits acc [c] =
     (case digit_val c of None \<Rightarrow> None | Some v \<Rightarrow> Some (acc * 10 + v))"
| "more_digits acc (c # d # ds) =
     (if c = CHR ''_''
      then (case digit_val d of
              None \<Rightarrow> None
            | Some v \<Rightarrow> more_digits (acc * 10 + v) ds)
      else (case digit_val c of
              None \<Rightarrow> None
            | Some v \<Rightarrow> more_digits (acc * 10 + v) (d # ds)))"

datatype error =
    EOFError
  | ValueError
  | FileExistsError
  | FileNotFoundError
  | NotADirectoryError
  | IsADirectoryError

text \<open>
  The interpreter's limit on the number of digits converted between \<^verbatim>\<open>int\<close> and
  \<^verbatim>\<open>str\<close>: \<^verbatim>\<open>sys.get_int_max_str_digits()\<close>, 4300 by default from CPython 3.11 on.
  \<^verbatim>\<open>int(s)\<close> counts the digits of \<open>s\<close>, leading zeros included and underscores, sign
  and whitespace left out; the conversion to text counts the digits of the absolute
  value. Either raises \<^verbatim>\<open>ValueError\<close> beyond the limit.
\<close>

definition int_max_str_digits :: nat where
  "int_max_str_digits = 4300"

definition digits :: "string \<Rightarrow> nat option" where
  "digits s =
     (if int_max_str_digits < length (filter (\<lambda>c. c \<noteq> CHR ''_'') s) then None
      else case s of
             [] \<Rightarrow> None
           | c # cs \<Rightarrow> (case digit_val c of None \<Rightarrow> None | Some v \<Rightarrow> more_digits v cs))"

text \<open>
  \<^verbatim>\<open>int(s)\<close> for a string, base ten: optional whitespace, an optional sign, the digits,
  optional whitespace. Anything else raises \<^verbatim>\<open>ValueError\<close>.
\<close>

definition py_int :: "string \<Rightarrow> error + int" where
  "py_int s =
     (let t = rev (dropWhile int_space (rev (dropWhile int_space s)))
      in case t of
           [] \<Rightarrow> Inl ValueError
         | c # cs \<Rightarrow>
             if c = CHR ''-''
             then (case digits cs of None \<Rightarrow> Inl ValueError | Some n \<Rightarrow> Inr (- int n))
             else if c = CHR ''+''
             then (case digits cs of None \<Rightarrow> Inl ValueError | Some n \<Rightarrow> Inr (int n))
             else (case digits t of None \<Rightarrow> Inl ValueError | Some n \<Rightarrow> Inr (int n)))"

subsection \<open>The configuration object and \<^verbatim>\<open>json.dumps(config, indent=2)\<close>\<close>

text \<open>
  The values the script puts into its dictionary: strings, integers and dictionaries
  with string keys. A dictionary keeps its keys in insertion order, which is the order
  \<^verbatim>\<open>json\<close> writes them in, so it is an association list.
\<close>

datatype json = JStr string | JInt int | JObj "(string \<times> json) list"

fun lookup :: "json \<Rightarrow> string list \<Rightarrow> json option" where
  "lookup j [] = Some j"
| "lookup (JObj kvs) (k # ks) =
     (case map_of kvs k of None \<Rightarrow> None | Some v \<Rightarrow> lookup v ks)"
| "lookup _ (k # ks) = None"

definition hex_digit :: "nat \<Rightarrow> char" where
  "hex_digit n = (if n < 10 then char_of (48 + n) else char_of (87 + n))"

text \<open>
  One character of a string under \<^verbatim>\<open>ensure_ascii\<close>: the printable ASCII characters
  stand for themselves, apart from the quote and the backslash; the others are escaped,
  with lower-case hexadecimal digits.
\<close>

definition escape_char :: "char \<Rightarrow> string" where
  "escape_char c =
     (let n = (of_char c :: nat)
      in if c = CHR ''\"'' then [CHR 0x5C, CHR ''\"'']
         else if n = 92 then [CHR 0x5C, CHR 0x5C]
         else if n = 10 then [CHR 0x5C, CHR ''n'']
         else if n = 13 then [CHR 0x5C, CHR ''r'']
         else if n = 9 then [CHR 0x5C, CHR ''t'']
         else if n = 8 then [CHR 0x5C, CHR ''b'']
         else if n = 12 then [CHR 0x5C, CHR ''f'']
         else if 32 \<le> n \<and> n \<le> 126 then [c]
         else [CHR 0x5C, CHR ''u'', CHR ''0'', CHR ''0'',
               hex_digit (n div 16), hex_digit (n mod 16)])"

definition encode_str :: "string \<Rightarrow> string" where
  "encode_str s = CHR ''\"'' # concat (map escape_char s) @ [CHR ''\"'']"

fun nat_repr :: "nat \<Rightarrow> string" where
  "nat_repr n =
     (if n < 10 then [char_of (48 + n)]
      else nat_repr (n div 10) @ [char_of (48 + n mod 10)])"

declare nat_repr.simps [simp del]

definition int_repr :: "int \<Rightarrow> string" where
  "int_repr i = (if i < 0 then CHR ''-'' # nat_repr (nat (- i)) else nat_repr (nat i))"

text \<open>
  \<^verbatim>\<open>int.__repr__\<close>, which \<^verbatim>\<open>json\<close> calls on an integer: the decimal text, or
  \<^verbatim>\<open>ValueError\<close> when the absolute value has more digits than the limit.
\<close>

definition int_str :: "int \<Rightarrow> error + string" where
  "int_str i =
     (if int_max_str_digits < length (nat_repr (nat \<bar>i\<bar>)) then Inl ValueError
      else Inr (int_repr i))"

text \<open>A line break followed by the indentation of a nesting level, two spaces each.\<close>

definition newline_indent :: "nat \<Rightarrow> string" where
  "newline_indent lvl = CHR 0x0A # concat (replicate lvl ''  '')"

text \<open>
  The encoder of \<^verbatim>\<open>json.dump(obj, f, indent=2)\<close> yields the text piece by piece, and
  each piece is written as it comes. So the result of encoding is the text yielded until
  the encoder has finished or raised, together with the exception if there is one. The
  members of a dictionary are encoded in order: the separator (a comma and a line
  break) before every member but the first, the key, \<^verbatim>\<open>": "\<close>, the value; an exception
  in a value ends the text there.
\<close>

fun stream_items ::
  "string \<Rightarrow> bool \<Rightarrow> (string \<times> string \<times> error option) list \<Rightarrow> string \<times> error option"
where
  "stream_items sep first [] = ([], None)"
| "stream_items sep first ((k, t, e) # rest) =
     (let head = (if first then [] else sep) @ encode_str k @ '': '' @ t
      in case e of
           Some err \<Rightarrow> (head, Some err)
         | None \<Rightarrow> (case stream_items sep False rest of (t', e') \<Rightarrow> (head @ t', e')))"

text \<open>
  The encoder at nesting level \<open>lvl\<close>. An empty dictionary is \<^verbatim>\<open>{}\<close>; any other one
  has each member on a line of its own and the closing brace on a line of its own.
\<close>

fun emit :: "nat \<Rightarrow> json \<Rightarrow> string \<times> error option" where
  "emit lvl (JStr s) = (encode_str s, None)"
| "emit lvl (JInt i) = (case int_str i of Inl e \<Rightarrow> ([], Some e) | Inr t \<Rightarrow> (t, None))"
| "emit lvl (JObj []) = (''{}'', None)"
| "emit lvl (JObj kvs) =
     (case stream_items ('','' @ newline_indent (Suc lvl)) True
             (map (\<lambda>(k, v). (k, emit (Suc lvl) v)) kvs) of
        (t, Some err) \<Rightarrow> (''{'' @ newline_indent (Suc lvl) @ t, Some err)
      | (t, None) \<Rightarrow>
          (''{'' @ newline_indent (Suc lvl) @ t @ newline_indent lvl @ ''}'', None))"

text \<open>
  \<open>json_dumps obj\<close> is the text yielded for \<open>obj\<close> and \<open>json_error obj\<close> the exception
  that ended it, if any: \<^verbatim>\<open>json.dumps(obj, indent=2)\<close> returns the text when there is no
  exception and raises it otherwise; \<^verbatim>\<open>json.dump(obj, f, indent=2)\<close> writes the text to
  \<open>f\<close> in either case, and then raises the exception if there is one.
\<close>

definition json_dumps :: "json \<Rightarrow> string" where
  "json_dumps j = fst (emit 0 j)"

definition json_error :: "json \<Rightarrow> error option" where
  "json_error j = snd (emit 0 j)"

subsection \<open>The terminal and the file system\<close>

text \<open>
  A path of the file system holds a file with its contents, or a directory, or nothing.
  \<open>stdin\<close> holds the lines not read yet, without their line ends; \<open>stdout\<close> holds what
  has been written, one element for each \<^verbatim>\<open>print\<close> and each prompt of \<^verbatim>\<open>input\<close>.
\<close>

datatype node = File string | Dir

record world =
  stdin :: "string list"
  stdout :: "string list"
  fs :: "string \<Rightarrow> node option"

type_synonym 'a io = "world \<Rightarrow> (error + 'a) \<times> world"

text \<open>Sequencing: an exception of the first statement skips the rest.\<close>

definition bind :: "'a io \<Rightarrow> ('a \<Rightarrow> 'b io) \<Rightarrow> 'b io" where
  "bind m f w = (case m w of (Inl e, w') \<Rightarrow> (Inl e, w') | (Inr x, w') \<Rightarrow> f x w')"

definition seq :: "unit io \<Rightarrow> 'b io \<Rightarrow> 'b io" where
  "seq m k = bind m (\<lambda>_. k)"

definition print :: "string \<Rightarrow> unit io" where
  "print s w = (Inr (), w\<lparr>stdout := stdout w @ [s @ [CHR 0x0A]]\<rparr>)"

text \<open>\<^verbatim>\<open>input(prompt)\<close>: writes the prompt, then reads one line or raises at end of input.\<close>

definition input :: "string \<Rightarrow> string io" where
  "input prompt w =
     (let w1 = w\<lparr>stdout := stdout w @ [prompt]\<rparr>
      in case stdin w1 of
           [] \<Rightarrow> (Inl EOFError, w1)
         | l # ls \<Rightarrow> (Inr l, w1\<lparr>stdin := ls\<rparr>))"

lemma input_shorter:
  "input p w = (Inr l, w') \<Longrightarrow> length (stdin w') < length (stdin w)"
  by (auto simp: input_def Let_def split: list.splits)

text \<open>
  \<^verbatim>\<open>os.path.dirname\<close> (the part up to the last slash, without its trailing slashes
  unless it consists of slashes only), \<^verbatim>\<open>os.makedirs(name, exist_ok=True)\<close> for a name of
  one component, \<^verbatim>\<open>open(path, 'w')\<close>, which truncates the file, and
  \<^verbatim>\<open>json.dump(obj, f, indent=2)\<close> up to the closing of \<open>f\<close> at the end of the \<^verbatim>\<open>with\<close>
  block, which leaves in the file what the encoder had yielded. The failures modelled
  are those that the kinds of the nodes and the encoder decide; permissions and devices
  are not part of the state.
\<close>

definition dirname :: "string \<Rightarrow> string" where
  "dirname p =
     (let head = rev (dropWhile (\<lambda>c. c \<noteq> CHR ''/'') (rev p))
      in if head \<noteq> [] \<and> \<not> list_all (\<lambda>c. c = CHR ''/'') head
         then rev (dropWhile (\<lambda>c. c = CHR ''/'') (rev head))
         else head)"

definition makedirs_exist_ok :: "string \<Rightarrow> unit io" where
  "makedirs_exist_ok name w =
     (case fs w name of
        None \<Rightarrow> (Inr (), w\<lparr>fs := (fs w)(name \<mapsto> Dir)\<rparr>)
      | Some Dir \<Rightarrow> (Inr (), w)
      | Some (File _) \<Rightarrow> (Inl FileExistsError, w))"

definition open_w :: "string \<Rightarrow> unit io" where
  "open_w path w =
     (let d = dirname path;
          parent = (if d = [] then Some Dir else fs w d)
      in case parent of
           None \<Rightarrow> (Inl FileNotFoundError, w)
         | Some (File _) \<Rightarrow> (Inl NotADirectoryError, w)
         | Some Dir \<Rightarrow>
             (case fs w path of
                Some Dir \<Rightarrow> (Inl IsADirectoryError, w)
              | _ \<Rightarrow> (Inr (), w\<lparr>fs := (fs w)(path \<mapsto> File [])\<rparr>)))"

definition json_dump :: "json \<Rightarrow> string \<Rightarrow> unit io" where
  "json_dump obj path w =
     (let w' = w\<lparr>fs := (fs w)(path \<mapsto> File (json_dumps obj))\<rparr>
      in case json_error obj of
           None \<Rightarrow> (Inr (), w')
         | Some e \<Rightarrow> (Inl e, w'))"

subsection \<open>\<^verbatim>\<open>get_input\<close>\<close>

text \<open>
  The loop of the branch without a default:
  \<^verbatim>\<open>while not response: response = input(f"{prompt} (required): ").strip()\<close>.
  Each round reads a line, so the loop ends when the input does, at the latest.
\<close>

function while_not_response :: "string \<Rightarrow> string \<Rightarrow> string io" where
  "while_not_response prompt response w =
     (if response = []
      then (case input (prompt @ '' (required): '') w of
              (Inl e, w') \<Rightarrow> (Inl e, w')
            | (Inr l, w') \<Rightarrow> while_not_response prompt (strip l) w')
      else (Inr response, w))"
  by pat_completeness auto
termination
  by (relation "measure (\<lambda>(p, r, w). length (stdin w))") (auto dest: input_shorter [OF sym])

declare while_not_response.simps [simp del]

text \<open>
  \<^verbatim>\<open>if default:\<close> tests the truth value of the argument: \<^verbatim>\<open>None\<close> and the empty string
  are both false, every other string is true.
\<close>

fun truthy :: "string option \<Rightarrow> string option" where
  "truthy None = None"
| "truthy (Some d) = (if d = [] then None else Some d)"

definition get_input :: "string \<Rightarrow> string option \<Rightarrow> string io" where
  "get_input prompt dflt w =
     (case truthy dflt of
        Some d \<Rightarrow>
          (case input (prompt @ '' ['' @ d @ '']: '') w of
             (Inl e, w') \<Rightarrow> (Inl e, w')
           | (Inr l, w') \<Rightarrow>
               (let response = strip l
                in (Inr (if response \<noteq> [] then response else d), w')))
      | None \<Rightarrow>
          (case input (prompt @ '': '') w of
             (Inl e, w') \<Rightarrow> (Inl e, w')
           | (Inr l, w') \<Rightarrow> while_not_response prompt (strip l) w'))"

subsection \<open>\<^verbatim>\<open>main\<close>\<close>

text \<open>
  Lines 23 to 77 of the script: the banner, the eight questions, the derivation of
  \<open>refresh_ms\<close> and the construction of the dictionary \<open>config\<close>.
\<close>

definition main_collect :: "json io" where
  "main_collect =
     seq (print ''=== Inkplate Smart Display Configuration Setup ==='') (
     seq (print '''') (
     seq (print ''WiFi Configuration:'') (
     bind (get_input ''WiFi SSID'' None) (\<lambda>wifi_ssid.
     bind (get_input ''WiFi Password'' None) (\<lambda>wifi_password.
     seq (print '''') (
     seq (print ''Image Server Configuration:'') (
     bind (get_input ''Image URL (JPEG)'' (Some ''http://httpbin.org/image/jpeg''))
       (\<lambda>server_url.
     seq (print '''') (
     seq (print ''Weather Configuration:'') (
     seq (print ''(You can find coordinates at https://www.latlong.net/)'') (
     bind (get_input ''City name'' (Some ''Seattle'')) (\<lambda>weather_city.
     bind (get_input ''Latitude'' (Some ''47.6062'')) (\<lambda>weather_lat.
     bind (get_input ''Longitude'' (Some ''-122.3321'')) (\<lambda>weather_lon.
     bind (get_input ''Temperature units (fahrenheit/celsius)'' (Some ''fahrenheit''))
       (\<lambda>weather_units.
     seq (print '''') (
     seq (print ''Update Configuration:'') (
     bind (get_input ''Refresh interval (hours)'' (Some ''24'')) (\<lambda>refresh_hours.
     bind (\<lambda>w. (py_int refresh_hours, w)) (\<lambda>hours.
     let refresh_ms = hours * 60 * 60 * 1000 in
     seq (print '''') (
     (\<lambda>w. (Inr (JObj
       [(''wifi'', JObj [(''ssid'', JStr wifi_ssid), (''password'', JStr wifi_password)]),
        (''server'', JObj [(''url'', JStr server_url)]),
        (''weather'', JObj [(''latitude'', JStr weather_lat),
                            (''longitude'', JStr weather_lon),
                            (''city'', JStr weather_city),
                            (''units'', JStr weather_units)]),
        (''update'', JObj [(''refreshMs'', JInt refresh_ms)]),
        (''display'', JObj [(''width'', JInt 1200), (''sidebarWidthPct'', JInt 20)]),
        (''hardware'', JObj [(''wakeButtonPin'', JInt 36)])]), w))
     ))))))))))))))))))))"

text \<open>
  Lines 79 to 95: the directory, the file, and the closing messages with the
  configuration echoed.
\<close>

definition main_persist :: "json \<Rightarrow> unit io" where
  "main_persist config =
     seq (makedirs_exist_ok ''data'') (
     let config_path = ''data/config.json'' in
     seq (open_w config_path) (
     seq (json_dump config config_path) (
     seq (print (''Configuration saved to '' @ config_path)) (
     seq (print '''') (
     seq (print ''Next steps:'') (
     seq (print ''1. Upload filesystem: make upload-fs'') (
     seq (print ''2. Build and upload firmware: make build upload'') (
     seq (print ''   Or use: make upload-all'') (
     seq (print '''') (
     seq (print ''Your configuration:'') (
     bind (\<lambda>w. (case json_error config of
                    None \<Rightarrow> Inr (json_dumps config)
                  | Some e \<Rightarrow> Inl e, w))
       print)))))))))))"

definition main :: "unit io" where
  "main = bind main_collect main_persist"

subsection \<open>The layout of the file\<close>

text \<open>
  The text of \<^verbatim>\<open>data/config.json\<close> as the specification lays it out (section 6, the
  persisted file: the six groups with their fields, indented by two spaces), for seven
  strings and the decimal text of \<open>refreshMs\<close>. It is split at the place of that
  number: \<open>spec_file_prefix\<close> runs up to the blank after \<^verbatim>\<open>"refreshMs":\<close>, and
  \<open>spec_file_suffix\<close> is what follows the number. These two are not taken from the
  script; the encoder above is, and the two are compared below.
\<close>

definition spec_file_prefix ::
  "string \<Rightarrow> string \<Rightarrow> string \<Rightarrow> string \<Rightarrow> string \<Rightarrow> string \<Rightarrow> string \<Rightarrow> string"
where
  "spec_file_prefix ssid password url lat lon city units =
     ''{\<newline>  \"wifi\": {\<newline>    \"ssid\": '' @ encode_str ssid @
     '',\<newline>    \"password\": '' @ encode_str password @
     ''\<newline>  },\<newline>  \"server\": {\<newline>    \"url\": '' @ encode_str url @
     ''\<newline>  },\<newline>  \"weather\": {\<newline>    \"latitude\": '' @ encode_str lat @
     '',\<newline>    \"longitude\": '' @ encode_str lon @
     '',\<newline>    \"city\": '' @ encode_str city @
     '',\<newline>    \"units\": '' @ encode_str units @
     ''\<newline>  },\<newline>  \"update\": {\<newline>    \"refreshMs\": ''"

definition spec_file_suffix :: string where
  "spec_file_suffix =
     ''\<newline>  },\<newline>  \"display\": {\<newline>    \"width\": 1200,\<newline>    \"sidebarWidthPct\": 20'' @
     ''\<newline>  },\<newline>  \"hardware\": {\<newline>    \"wakeButtonPin\": 36\<newline>  }\<newline>}''"

subsection \<open>Properties of actions\<close>

text \<open>
  An action keeps the file system when no run of it changes any path; it reads standard
  input only when its result and the input left over are the same in any two states
  with the same input, whatever has been printed and whatever the file system holds.
\<close>

definition keeps_fs :: "'a io \<Rightarrow> bool" where
  "keeps_fs m = (\<forall>w. fs (snd (m w)) = fs w)"

definition reads_stdin_only :: "'a io \<Rightarrow> bool" where
  "reads_stdin_only m =
     (\<forall>w1 w2. stdin w1 = stdin w2 \<longrightarrow>
        fst (m w1) = fst (m w2) \<and> stdin (snd (m w1)) = stdin (snd (m w2)))"

section \<open>Symbolic runs\<close>

subsection \<open>Prompts\<close>

lemma seq_print:
  "seq (print s) k \<lparr>stdin = i, stdout = out, fs = f\<rparr>
     = k \<lparr>stdin = i, stdout = out @ [s @ [CHR 0x0A]], fs = f\<rparr>"
  by (simp add: seq_def bind_def print_def)

lemma input_Cons:
  "input p \<lparr>stdin = l # ls, stdout = out, fs = f\<rparr>
     = (Inr l, \<lparr>stdin = ls, stdout = out @ [p], fs = f\<rparr>)"
  by (simp add: input_def)

lemma input_Nil:
  "input p \<lparr>stdin = [], stdout = out, fs = f\<rparr>
     = (Inl EOFError, \<lparr>stdin = [], stdout = out @ [p], fs = f\<rparr>)"
  by (simp add: input_def)

lemma while_not_response_run:
  "\<forall>b \<in> set bs. strip b = [] \<Longrightarrow> strip l \<noteq> [] \<Longrightarrow>
   while_not_response p [] \<lparr>stdin = bs @ l # rest, stdout = out, fs = f\<rparr>
     = (Inr (strip l),
        \<lparr>stdin = rest,
         stdout = out @ replicate (Suc (length bs)) (p @ '' (required): ''), fs = f\<rparr>)"
proof (induction bs arbitrary: out)
  case Nil
  then show ?case
    by (simp add: while_not_response.simps [of p "[]"] while_not_response.simps [of p "strip l"] input_Cons)
next
  case (Cons b bs)
  from Cons.prems have b: "strip b = []" and bs: "\<forall>b \<in> set bs. strip b = []" by simp_all
  have "while_not_response p [] \<lparr>stdin = (b # bs) @ l # rest, stdout = out, fs = f\<rparr>
      = while_not_response p [] \<lparr>stdin = bs @ l # rest, stdout = out @ [p @ '' (required): ''], fs = f\<rparr>"
    by (subst while_not_response.simps) (simp add: input_Cons b)
  also have "\<dots> = (Inr (strip l),
        \<lparr>stdin = rest,
         stdout = (out @ [p @ '' (required): '']) @ replicate (Suc (length bs)) (p @ '' (required): ''), fs = f\<rparr>)"
    using Cons.IH [OF bs Cons.prems(2)] .
  finally show ?case by (simp add: replicate_append_same)
qed

lemma get_input_required_run:
  assumes "\<forall>b \<in> set bs. strip b = []" and "strip l \<noteq> []"
  shows "get_input p None \<lparr>stdin = bs @ l # rest, stdout = out, fs = f\<rparr>
     = (Inr (strip l),
        \<lparr>stdin = rest,
         stdout = out @ (p @ '': '') # replicate (length bs) (p @ '' (required): ''), fs = f\<rparr>)"
proof (cases bs)
  case Nil
  with assms show ?thesis
    by (simp add: get_input_def input_Cons while_not_response.simps [of p "strip l"])
next
  case (Cons b bs')
  with assms have b: "strip b = []" and bs: "\<forall>b \<in> set bs'. strip b = []" by simp_all
  show ?thesis
    using while_not_response_run [OF bs assms(2), of p rest "out @ [p @ '': '']" f]
    by (simp add: Cons get_input_def input_Cons b)
qed

lemma get_input_default_run:
  "d \<noteq> [] \<Longrightarrow>
   get_input p (Some d) \<lparr>stdin = a # rest, stdout = out, fs = f\<rparr>
     = (Inr (if strip a \<noteq> [] then strip a else d),
        \<lparr>stdin = rest, stdout = out @ [p @ '' ['' @ d @ '']: ''], fs = f\<rparr>)"
  by (simp add: get_input_def input_Cons)

lemma py_int_step:
  "bind (\<lambda>w. (py_int s, w)) k w = (case py_int s of Inl e \<Rightarrow> (Inl e, w) | Inr h \<Rightarrow> k h w)"
  by (simp add: bind_def split: sum.splits)

lemma bind_get_input_required:
  assumes "\<forall>b \<in> set bs. strip b = []" and "strip l \<noteq> []"
  shows "bind (get_input p None) k \<lparr>stdin = bs @ l # rest, stdout = out, fs = f\<rparr>
     = k (strip l)
        \<lparr>stdin = rest,
         stdout = out @ (p @ '': '') # replicate (length bs) (p @ '' (required): ''), fs = f\<rparr>"
  by (simp add: bind_def get_input_required_run [OF assms])

lemma bind_get_input_default:
  "bind (get_input p (Some (c # cs))) k \<lparr>stdin = a # rest, stdout = out, fs = f\<rparr>
     = k (if strip a \<noteq> [] then strip a else c # cs)
        \<lparr>stdin = rest, stdout = out @ [p @ '' ['' @ (c # cs) @ '']: ''], fs = f\<rparr>"
  by (simp add: bind_def get_input_default_run)

lemma main_collect_run:
  assumes b1: "\<forall>b \<in> set bs1. strip b = []" and l1: "strip l1 \<noteq> []"
      and b2: "\<forall>b \<in> set bs2. strip b = []" and l2: "strip l2 \<noteq> []"
  shows "main_collect
           \<lparr>stdin = bs1 @ l1 # bs2 @ l2 # a3 # a4 # a5 # a6 # a7 # a8 # rest,
            stdout = out, fs = f\<rparr>
     = (case py_int (if strip a8 \<noteq> [] then strip a8 else ''24'') of
          Inl e \<Rightarrow>
            (Inl e,
             \<lparr>stdin = rest,
              stdout = out @
                [''=== Inkplate Smart Display Configuration Setup ==='' @ [CHR 0x0A],
                 [CHR 0x0A],
                 ''WiFi Configuration:'' @ [CHR 0x0A],
                 ''WiFi SSID: ''] @
                replicate (length bs1) ''WiFi SSID (required): '' @
                [''WiFi Password: ''] @
                replicate (length bs2) ''WiFi Password (required): '' @
                [[CHR 0x0A],
                 ''Image Server Configuration:'' @ [CHR 0x0A],
                 ''Image URL (JPEG) [http://httpbin.org/image/jpeg]: '',
                 [CHR 0x0A],
                 ''Weather Configuration:'' @ [CHR 0x0A],
                 ''(You can find coordinates at https://www.latlong.net/)'' @ [CHR 0x0A],
                 ''City name [Seattle]: '',
                 ''Latitude [47.6062]: '',
                 ''Longitude [-122.3321]: '',
                 ''Temperature units (fahrenheit/celsius) [fahrenheit]: '',
                 [CHR 0x0A],
                 ''Update Configuration:'' @ [CHR 0x0A],
                 ''Refresh interval (hours) [24]: ''],
              fs = f\<rparr>)
        | Inr h \<Rightarrow>
            (Inr (JObj
               [(''wifi'', JObj [(''ssid'', JStr (strip l1)), (''password'', JStr (strip l2))]),
                (''server'', JObj [(''url'', JStr (if strip a3 \<noteq> [] then strip a3
                                                  else ''http://httpbin.org/image/jpeg''))]),
                (''weather'',
                   JObj [(''latitude'', JStr (if strip a5 \<noteq> [] then strip a5 else ''47.6062'')),
                         (''longitude'', JStr (if strip a6 \<noteq> [] then strip a6 else ''-122.3321'')),
                         (''city'', JStr (if strip a4 \<noteq> [] then strip a4 else ''Seattle'')),
                         (''units'', JStr (if strip a7 \<noteq> [] then strip a7 else ''fahrenheit''))]),
                (''update'', JObj [(''refreshMs'', JInt (h * 60 * 60 * 1000))]),
                (''display'', JObj [(''width'', JInt 1200), (''sidebarWidthPct'', JInt 20)]),
                (''hardware'', JObj [(''wakeButtonPin'', JInt 36)])]),
             \<lparr>stdin = rest,
              stdout = out @
                [''=== Inkplate Smart Display Configuration Setup ==='' @ [CHR 0x0A],
                 [CHR 0x0A],
                 ''WiFi Configuration:'' @ [CHR 0x0A],
                 ''WiFi SSID: ''] @
                replicate (length bs1) ''WiFi SSID (required): '' @
                [''WiFi Password: ''] @
                replicate (length bs2) ''WiFi Password (required): '' @
                [[CHR 0x0A],
                 ''Image Server Configuration:'' @ [CHR 0x0A],
                 ''Image URL (JPEG) [http://httpbin.org/image/jpeg]: '',
                 [CHR 0x0A],
                 ''Weather Configuration:'' @ [CHR 0x0A],
                 ''(You can find coordinates at https://www.latlong.net/)'' @ [CHR 0x0A],
                 ''City name [Seattle]: '',
                 ''Latitude [47.6062]: '',
                 ''Longitude [-122.3321]: '',
                 ''Temperature units (fahrenheit/celsius) [fahrenheit]: '',
                 [CHR 0x0A],
                 ''Update Configuration:'' @ [CHR 0x0A],
                 ''Refresh interval (hours) [24]: '',
                 [CHR 0x0A]],
              fs = f\<rparr>))"
  unfolding main_collect_def
  apply (simp only: seq_print)
  apply (subst bind_get_input_required [OF b1 l1])
  apply (subst bind_get_input_required [OF b2 l2])
  apply (simp only: seq_print)
  apply (subst bind_get_input_default)
  apply (simp only: seq_print)
  apply (subst bind_get_input_default)
  apply (subst bind_get_input_default)
  apply (subst bind_get_input_default)
  apply (subst bind_get_input_default)
  apply (simp only: seq_print)
  apply (subst bind_get_input_default)
  apply (subst py_int_step)
  apply (simp only: Let_def seq_print)
  apply (cases "py_int (if strip a8 \<noteq> [] then strip a8 else ''24'')")
   apply (simp_all only: sum.case)
   apply simp
  apply simp
  done

subsection \<open>The questions leave the file system alone\<close>

lemma keeps_fs_bind: "keeps_fs m \<Longrightarrow> (\<And>x. keeps_fs (k x)) \<Longrightarrow> keeps_fs (bind m k)"
  unfolding keeps_fs_def bind_def
  by (auto split: prod.splits sum.splits) (metis snd_conv)+

lemma keeps_fs_seq: "keeps_fs m \<Longrightarrow> keeps_fs k \<Longrightarrow> keeps_fs (seq m k)"
  by (simp add: seq_def keeps_fs_bind)

lemma keeps_fs_print: "keeps_fs (print s)"
  by (simp add: keeps_fs_def print_def)

lemma keeps_fs_input: "keeps_fs (input p)"
  by (simp add: keeps_fs_def input_def Let_def split: list.splits)

lemma keeps_fs_pure: "keeps_fs (\<lambda>w. (r, w))"
  by (simp add: keeps_fs_def)

lemma input_fs: "input p w = (r, w') \<Longrightarrow> fs w' = fs w"
  using keeps_fs_input [of p] by (auto simp: keeps_fs_def dest: spec [of _ w])

lemma while_not_response_fs: "fs (snd (while_not_response p r w)) = fs w"
proof (induction p r w rule: while_not_response.induct)
  case (1 prompt response w)
  show ?case
  proof (cases "response = []")
    case False
    then show ?thesis by (simp add: while_not_response.simps [of prompt response])
  next
    case True
    obtain x w' where i: "input (prompt @ '' (required): '') w = (x, w')" by fastforce
    show ?thesis
    proof (cases x)
      case (Inl e)
      with i True show ?thesis
        by (subst while_not_response.simps) (simp add: input_fs)
    next
      case (Inr l)
      with i True "1.IH" [OF True i [symmetric, unfolded Inr]] show ?thesis
        by (subst while_not_response.simps) (simp add: input_fs)
    qed
  qed
qed

lemma keeps_fs_get_input: "keeps_fs (get_input p d)"
  unfolding keeps_fs_def get_input_def
  by (auto split: option.splits prod.splits sum.splits simp: while_not_response_fs input_fs Let_def)

lemma keeps_fs_main_collect: "keeps_fs main_collect"
  unfolding main_collect_def Let_def
  by (intro keeps_fs_bind keeps_fs_seq keeps_fs_print keeps_fs_get_input keeps_fs_pure)

subsection \<open>Every answer returned is non-empty\<close>

lemma while_not_response_nonempty:
  "while_not_response p r w = (Inr s, w') \<Longrightarrow> s \<noteq> []"
proof (induction p r w rule: while_not_response.induct)
  case (1 prompt response w)
  show ?case
  proof (cases "response = []")
    case False
    with "1.prems" show ?thesis by (simp add: while_not_response.simps [of prompt response])
  next
    case True
    obtain x w1 where i: "input (prompt @ '' (required): '') w = (x, w1)" by fastforce
    show ?thesis
    proof (cases x)
      case (Inl e)
      with i True "1.prems" show ?thesis
        by (subst (asm) while_not_response.simps) simp
    next
      case (Inr l)
      have "while_not_response prompt (strip l) w1 = (Inr s, w')"
        using i True "1.prems" Inr by (subst (asm) while_not_response.simps) simp
      with "1.IH" [OF True i [symmetric, unfolded Inr]] show ?thesis by simp
    qed
  qed
qed

lemma get_input_nonempty: "get_input p d w = (Inr s, w') \<Longrightarrow> s \<noteq> []"
  unfolding get_input_def
  by (cases d)
     (auto split: option.splits prod.splits sum.splits if_splits simp: Let_def
           dest: while_not_response_nonempty)

lemma bindE:
  assumes "bind m k w = (Inr y, w')"
  obtains x w1 where "m w = (Inr x, w1)" and "k x w1 = (Inr y, w')"
  using assms by (auto simp: bind_def split: prod.splits sum.splits)

lemma seqE:
  assumes "seq m k w = (Inr y, w')"
  obtains w1 where "m w = (Inr (), w1)" and "k w1 = (Inr y, w')"
  using assms by (auto simp: seq_def elim!: bindE)

lemma main_collect_shape:
  assumes "main_collect w = (Inr cfg, w')"
  shows "\<exists>ssid password url lat lon city units ms.
           cfg = JObj
               [(''wifi'', JObj [(''ssid'', JStr ssid), (''password'', JStr password)]),
                (''server'', JObj [(''url'', JStr url)]),
                (''weather'',
                   JObj [(''latitude'', JStr lat), (''longitude'', JStr lon),
                         (''city'', JStr city), (''units'', JStr units)]),
                (''update'', JObj [(''refreshMs'', JInt ms)]),
                (''display'', JObj [(''width'', JInt 1200), (''sidebarWidthPct'', JInt 20)]),
                (''hardware'', JObj [(''wakeButtonPin'', JInt 36)])]
         \<and> ssid \<noteq> [] \<and> password \<noteq> [] \<and> url \<noteq> [] \<and> lat \<noteq> [] \<and> lon \<noteq> []
         \<and> city \<noteq> [] \<and> units \<noteq> []"
  using assms unfolding main_collect_def Let_def
  by (elim bindE seqE) (auto dest!: get_input_nonempty)

subsection \<open>The answers depend on the input lines only\<close>

lemma reads_bind:
  assumes m: "reads_stdin_only m" and k: "\<And>x. reads_stdin_only (k x)"
  shows "reads_stdin_only (bind m k)"
  unfolding reads_stdin_only_def
proof (intro allI impI)
  fix w1 w2 :: world
  assume eq: "stdin w1 = stdin w2"
  obtain r1 v1 where 1: "m w1 = (r1, v1)" by fastforce
  obtain r2 v2 where 2: "m w2 = (r2, v2)" by fastforce
  from m eq have "fst (m w1) = fst (m w2) \<and> stdin (snd (m w1)) = stdin (snd (m w2))"
    unfolding reads_stdin_only_def by blast
  with 1 2 have r: "r1 = r2" and v: "stdin v1 = stdin v2" by simp_all
  show "fst (bind m k w1) = fst (bind m k w2)
      \<and> stdin (snd (bind m k w1)) = stdin (snd (bind m k w2))"
  proof (cases r2)
    case (Inl e)
    then show ?thesis by (simp add: bind_def 1 2 r v)
  next
    case (Inr x)
    from k [of x] v
    have "fst (k x v1) = fst (k x v2) \<and> stdin (snd (k x v1)) = stdin (snd (k x v2))"
      unfolding reads_stdin_only_def by blast
    with Inr show ?thesis by (simp add: bind_def 1 2 r)
  qed
qed

lemma reads_seq: "reads_stdin_only m \<Longrightarrow> reads_stdin_only k \<Longrightarrow> reads_stdin_only (seq m k)"
  by (simp add: seq_def reads_bind)

lemma reads_print: "reads_stdin_only (print s)"
  by (simp add: reads_stdin_only_def print_def)

lemma reads_input: "reads_stdin_only (input p)"
  by (simp add: reads_stdin_only_def input_def Let_def split: list.splits)

lemma reads_pure: "reads_stdin_only (\<lambda>w. (r, w))"
  by (simp add: reads_stdin_only_def)

lemma reads_while_aux:
  "stdin w1 = stdin w2 \<Longrightarrow>
     fst (while_not_response p r w1) = fst (while_not_response p r w2)
   \<and> stdin (snd (while_not_response p r w1)) = stdin (snd (while_not_response p r w2))"
proof (induction p r w1 arbitrary: w2 rule: while_not_response.induct)
  case (1 prompt response w)
  show ?case
  proof (cases "response = []")
    case False
    with "1.prems" show ?thesis by (simp add: while_not_response.simps [of prompt response])
  next
    case True
    show ?thesis
    proof (cases "stdin w")
      case Nil
      have n1: "while_not_response prompt response w
                = (Inl EOFError, w\<lparr>stdout := stdout w @ [prompt @ '' (required): '']\<rparr>)"
        using True Nil by (subst while_not_response.simps) (simp add: input_def)
      have n2: "while_not_response prompt response w2
                = (Inl EOFError, w2\<lparr>stdout := stdout w2 @ [prompt @ '' (required): '']\<rparr>)"
        using True Nil "1.prems" by (subst while_not_response.simps) (simp add: input_def)
      show ?thesis using Nil "1.prems" by (simp add: n1 n2)
    next
      case (Cons l ls)
      let ?v1 = "w\<lparr>stdout := stdout w @ [prompt @ '' (required): ''], stdin := ls\<rparr>"
      let ?v2 = "w2\<lparr>stdout := stdout w2 @ [prompt @ '' (required): ''], stdin := ls\<rparr>"
      have i1: "input (prompt @ '' (required): '') w = (Inr l, ?v1)"
        using Cons by (simp add: input_def)
      have i2: "input (prompt @ '' (required): '') w2 = (Inr l, ?v2)"
        using Cons "1.prems" by (simp add: input_def)
      have s1: "while_not_response prompt response w = while_not_response prompt (strip l) ?v1"
        using True i1 by (subst while_not_response.simps) simp
      have s2: "while_not_response prompt response w2 = while_not_response prompt (strip l) ?v2"
        using True i2 by (subst while_not_response.simps) simp
      have "stdin ?v1 = stdin ?v2" by simp
      from "1.IH" [OF True i1 [symmetric] refl this] show ?thesis
        by (simp only: s1 s2)
    qed
  qed
qed

lemma reads_while: "reads_stdin_only (while_not_response p r)"
  unfolding reads_stdin_only_def using reads_while_aux by blast

lemma get_input_alt:
  "get_input p d =
     (case truthy d of
        Some d' \<Rightarrow> bind (input (p @ '' ['' @ d' @ '']: ''))
                     (\<lambda>l w. (Inr (if strip l \<noteq> [] then strip l else d'), w))
      | None \<Rightarrow> bind (input (p @ '': '')) (\<lambda>l. while_not_response p (strip l)))"
  by (rule ext) (simp add: get_input_def bind_def Let_def split: option.splits prod.splits sum.splits)

lemma reads_get_input: "reads_stdin_only (get_input p d)"
  unfolding get_input_alt
  by (auto split: option.splits intro!: reads_bind reads_input reads_while reads_pure)

lemma reads_main_collect: "reads_stdin_only main_collect"
  unfolding main_collect_def Let_def
  by (intro reads_bind reads_seq reads_print reads_get_input reads_pure)

lemma main_collect_same_config:
  "stdin w1 = stdin w2 \<Longrightarrow> fst (main_collect w1) = fst (main_collect w2)"
  using reads_main_collect unfolding reads_stdin_only_def by blast

subsection \<open>Writing the file\<close>

lemma dirname_config_path: "dirname ''data/config.json'' = ''data''"
  by (simp add: dirname_def)

lemma open_config_file:
  "open_w ''data/config.json'' w =
     (case fs w ''data'' of
        None \<Rightarrow> (Inl FileNotFoundError, w)
      | Some (File _) \<Rightarrow> (Inl NotADirectoryError, w)
      | Some Dir \<Rightarrow>
          (case fs w ''data/config.json'' of
             Some Dir \<Rightarrow> (Inl IsADirectoryError, w)
           | _ \<Rightarrow> (Inr (), w\<lparr>fs := (fs w)(''data/config.json'' \<mapsto> File [])\<rparr>)))"
  by (simp add: open_w_def dirname_config_path)

lemma keeps_fs_echo: "keeps_fs (bind (\<lambda>w. (r, w)) print)"
  by (intro keeps_fs_bind keeps_fs_pure keeps_fs_print)

lemma prints_fs: "keeps_fs
     (seq (print a1) (seq (print a2) (seq (print a3) (seq (print a4) (seq (print a5)
       (seq (print a6) (seq (print a7) (seq (print a8) (bind (\<lambda>w. (r, w)) print)))))))))"
  by (intro keeps_fs_seq keeps_fs_print keeps_fs_echo)

lemmas prints_keep = prints_fs [unfolded keeps_fs_def, rule_format]

lemma prints_result:
  "fst (seq (print a1) (seq (print a2) (seq (print a3) (seq (print a4) (seq (print a5)
       (seq (print a6) (seq (print a7) (seq (print a8) (bind (\<lambda>w. (r, w)) print))))))))
        w)
     = (case r of Inl e \<Rightarrow> Inl e | Inr t \<Rightarrow> Inr ())"
  by (simp add: seq_def bind_def print_def split: sum.splits)

lemma main_persist_cases:
  "main_persist cfg w =
     (case fs w ''data'' of
        Some (File c) \<Rightarrow> (Inl FileExistsError, w)
      | _ \<Rightarrow>
        (case fs w ''data/config.json'' of
           Some Dir \<Rightarrow> (Inl IsADirectoryError, w\<lparr>fs := (fs w)(''data'' \<mapsto> Dir)\<rparr>)
         | _ \<Rightarrow>
           (case json_error cfg of
              Some e \<Rightarrow>
                (Inl e,
                 w\<lparr>fs := (fs w)(''data'' \<mapsto> Dir,
                                  ''data/config.json'' \<mapsto> File (json_dumps cfg))\<rparr>)
            | None \<Rightarrow>
               (seq (print (''Configuration saved to '' @ ''data/config.json'')) (
                seq (print '''') (
                seq (print ''Next steps:'') (
                seq (print ''1. Upload filesystem: make upload-fs'') (
                seq (print ''2. Build and upload firmware: make build upload'') (
                seq (print ''   Or use: make upload-all'') (
                seq (print '''') (
                seq (print ''Your configuration:'') (
                bind (\<lambda>w. (Inr (json_dumps cfg), w)) print)))))))))
                (w\<lparr>fs := (fs w)(''data'' \<mapsto> Dir,
                                   ''data/config.json'' \<mapsto> File (json_dumps cfg))\<rparr>))))"
proof -
  have mk: "seq (makedirs_exist_ok n) k v =
              (case makedirs_exist_ok n v of (Inl e, v') \<Rightarrow> (Inl e, v') | (Inr u, v') \<Rightarrow> k v')"
    for n v and k :: "unit io"
    by (simp add: seq_def bind_def)
  have op: "seq (open_w p) k v =
              (case open_w p v of (Inl e, v') \<Rightarrow> (Inl e, v') | (Inr u, v') \<Rightarrow> k v')"
    for p v and k :: "unit io"
    by (simp add: seq_def bind_def)
  have du: "seq (json_dump j p) k v =
              (case json_dump j p v of (Inl e, v') \<Rightarrow> (Inl e, v') | (Inr u, v') \<Rightarrow> k v')"
    for j p v and k :: "unit io"
    by (simp add: seq_def bind_def)
  show ?thesis
  proof (cases "fs w ''data''")
    case None
    then show ?thesis
      unfolding main_persist_def Let_def mk op du
      by (simp add: makedirs_exist_ok_def open_config_file json_dump_def
               split: option.splits node.splits)
  next
    case (Some n)
    show ?thesis
    proof (cases n)
      case (File c)
      with Some show ?thesis
        unfolding main_persist_def Let_def mk
        by (simp add: makedirs_exist_ok_def)
    next
      case Dir
      with Some have idem: "(fs w)(''data'' \<mapsto> Dir) = fs w"
        by (simp add: fun_upd_idem)
      from Some Dir show ?thesis
        unfolding main_persist_def Let_def mk op du
        by (simp add: makedirs_exist_ok_def open_config_file json_dump_def idem
                 split: option.splits node.splits)
    qed
  qed
qed

lemma main_persist_fs_effect:
  assumes "main_persist cfg w = (r, w')"
  shows "fs w' = fs w
       \<or> fs w' = (fs w)(''data'' \<mapsto> Dir)
       \<or> (fs w' = (fs w)(''data'' \<mapsto> Dir, ''data/config.json'' \<mapsto> File (json_dumps cfg))
          \<and> r = (case json_error cfg of None \<Rightarrow> Inr () | Some e \<Rightarrow> Inl e))"
proof -
  from assms have "w' = snd (main_persist cfg w)" "r = fst (main_persist cfg w)" by simp_all
  then show ?thesis
    unfolding main_persist_cases
    by (auto split: option.splits node.splits simp: prints_keep prints_result)
qed

lemma main_persist_success:
  assumes "main_persist cfg w = (Inr u, w')"
  shows "fs w' ''data/config.json'' = Some (File (json_dumps cfg))"
    and "json_error cfg = None"
proof -
  from assms have 1: "w' = snd (main_persist cfg w)" and 2: "fst (main_persist cfg w) = Inr u"
    by simp_all
  from 2 show "fs w' ''data/config.json'' = Some (File (json_dumps cfg))"
    unfolding 1 main_persist_cases
    by (auto split: option.splits node.splits simp: prints_keep)
  from 2 show "json_error cfg = None"
    unfolding main_persist_cases
    by (auto split: option.splits node.splits)
qed

lemma main_persist_ok:
  assumes "f ''data'' = None \<or> f ''data'' = Some Dir" and "f ''data/config.json'' \<noteq> Some Dir"
      and "json_error cfg = None"
  shows "main_persist cfg \<lparr>stdin = i, stdout = out, fs = f\<rparr>
     = (Inr (),
        \<lparr>stdin = i,
         stdout = out @
           [''Configuration saved to data/config.json'' @ [CHR 0x0A],
            [CHR 0x0A],
            ''Next steps:'' @ [CHR 0x0A],
            ''1. Upload filesystem: make upload-fs'' @ [CHR 0x0A],
            ''2. Build and upload firmware: make build upload'' @ [CHR 0x0A],
            ''   Or use: make upload-all'' @ [CHR 0x0A],
            [CHR 0x0A],
            ''Your configuration:'' @ [CHR 0x0A],
            json_dumps cfg @ [CHR 0x0A]],
         fs = f(''data'' \<mapsto> Dir, ''data/config.json'' \<mapsto> File (json_dumps cfg))\<rparr>)"
  using assms unfolding main_persist_cases
  by (auto split: option.splits node.splits simp: seq_print print_def bind_def)

lemma main_persist_raises:
  assumes "f ''data'' = None \<or> f ''data'' = Some Dir" and "f ''data/config.json'' \<noteq> Some Dir"
      and "json_error cfg = Some e"
  shows "main_persist cfg \<lparr>stdin = i, stdout = out, fs = f\<rparr>
     = (Inl e,
        \<lparr>stdin = i, stdout = out,
         fs = f(''data'' \<mapsto> Dir, ''data/config.json'' \<mapsto> File (json_dumps cfg))\<rparr>)"
  using assms unfolding main_persist_cases
  by (auto split: option.splits node.splits)

lemma main_eq: "main w = (case main_collect w of (Inl e, w1) \<Rightarrow> (Inl e, w1)
                          | (Inr cfg, w1) \<Rightarrow> main_persist cfg w1)"
  by (simp add: main_def bind_def)

subsection \<open>Whitespace, signs and digits\<close>

lemma dropWhile_keep: "xs \<noteq> [] \<Longrightarrow> \<not> P (hd xs) \<Longrightarrow> dropWhile P xs = xs"
  by (cases xs) simp_all

lemma trim_surround:
  assumes ws1: "\<forall>c \<in> set ws1. P c" and ws2: "\<forall>c \<in> set ws2. P c"
      and ne: "body \<noteq> []" and h: "\<not> P (hd body)" and l: "\<not> P (last body)"
  shows "rev (dropWhile P (rev (dropWhile P (ws1 @ body @ ws2)))) = body"
proof -
  have "dropWhile P (ws1 @ body @ ws2) = dropWhile P (body @ ws2)"
    by (rule dropWhile_append2) (use ws1 in auto)
  also have "\<dots> = body @ ws2"
    using ne h by (intro dropWhile_keep) simp_all
  finally have 1: "dropWhile P (ws1 @ body @ ws2) = body @ ws2" .
  have "dropWhile P (rev ws2 @ rev body) = dropWhile P (rev body)"
    by (rule dropWhile_append2) (use ws2 in auto)
  then have "dropWhile P (rev (body @ ws2)) = dropWhile P (rev body)"
    by simp
  also have "\<dots> = rev body"
    using ne l by (intro dropWhile_keep) (simp_all add: hd_rev)
  finally show ?thesis by (simp add: 1)
qed

lemma strip_surround:
  "\<forall>c \<in> set ws1. isspace c \<Longrightarrow> \<forall>c \<in> set ws2. isspace c \<Longrightarrow> body \<noteq> [] \<Longrightarrow>
   \<not> isspace (hd body) \<Longrightarrow> \<not> isspace (last body) \<Longrightarrow> strip (ws1 @ body @ ws2) = body"
  unfolding strip_def by (rule trim_surround)

lemma digit_not_space:
  assumes "digit_val c = Some v"
  shows "\<not> isspace c" and "\<not> int_space c" and "c \<noteq> CHR ''-''" and "c \<noteq> CHR ''+''"
    and "c \<noteq> CHR ''_''"
  using assms
  by (auto simp: digit_val_def isspace_def int_space_def Let_def split: if_splits)

lemma more_digits_last:
  "more_digits acc cs = Some n \<Longrightarrow> cs \<noteq> [] \<Longrightarrow> \<exists>v. digit_val (last cs) = Some v"
proof (induction acc cs rule: more_digits.induct)
  case (1 acc)
  then show ?case by simp
next
  case (2 acc c)
  then show ?case by (auto split: option.splits)
next
  case (3 acc c d ds)
  show ?case
  proof (cases "c = CHR ''_''")
    case True
    with "3.prems" obtain v where v: "digit_val d = Some v"
      and m: "more_digits (acc * 10 + v) ds = Some n"
      by (auto split: option.splits)
    show ?thesis
    proof (cases ds)
      case Nil
      with v show ?thesis by simp
    next
      case (Cons e es)
      with "3.IH"(1) [OF True v m] show ?thesis by simp
    qed
  next
    case False
    with "3.prems" obtain v where v: "digit_val c = Some v"
      and m: "more_digits (acc * 10 + v) (d # ds) = Some n"
      by (auto split: option.splits)
    from "3.IH"(2) [OF False v m] show ?thesis by simp
  qed
qed

lemma digits_ends:
  assumes "digits ds = Some n"
  shows "ds \<noteq> []" and "\<exists>v. digit_val (hd ds) = Some v" and "\<exists>v. digit_val (last ds) = Some v"
proof -
  from assms obtain c cs v where ds: "ds = c # cs" and v: "digit_val c = Some v"
    and m: "more_digits v cs = Some n"
    by (auto simp: digits_def split: if_splits list.splits option.splits)
  show "ds \<noteq> []" by (simp add: ds)
  show "\<exists>v. digit_val (hd ds) = Some v" by (simp add: ds v)
  show "\<exists>v. digit_val (last ds) = Some v"
    using more_digits_last [OF m] by (cases cs) (simp_all add: ds v)
qed

lemma py_int_signed:
  assumes d: "digits ds = Some n"
  shows "py_int ds = Inr (int n)"
    and "py_int (CHR ''+'' # ds) = Inr (int n)"
    and "py_int (CHR ''-'' # ds) = Inr (- int n)"
proof -
  from digits_ends [OF d] obtain h l where ne: "ds \<noteq> []"
    and h: "digit_val (hd ds) = Some h" and l: "digit_val (last ds) = Some l" by blast
  have t0: "rev (dropWhile int_space (rev (dropWhile int_space ds))) = ds"
    using trim_surround [of "[]" int_space "[]" ds] ne digit_not_space(2) [OF h]
      digit_not_space(2) [OF l] by simp
  have sp: "\<not> int_space (CHR ''+'')" "\<not> int_space (CHR ''-'')"
    by (simp_all add: int_space_def)
  have t1: "rev (dropWhile int_space (rev (dropWhile int_space (s # ds)))) = s # ds"
    if "\<not> int_space s" for s
    using trim_surround [of "[]" int_space "[]" "s # ds"] ne that digit_not_space(2) [OF l]
    by simp
  obtain c cs where ds: "ds = c # cs" using ne by (cases ds) auto
  with h have c: "c \<noteq> CHR ''-''" "c \<noteq> CHR ''+''"
    using digit_not_space(3,4) by auto
  show "py_int ds = Inr (int n)"
    unfolding py_int_def t0 Let_def using d c by (simp add: ds)
  show "py_int (CHR ''+'' # ds) = Inr (int n)"
    unfolding py_int_def t1 [OF sp(1)] Let_def using d by simp
  show "py_int (CHR ''-'' # ds) = Inr (- int n)"
    unfolding py_int_def t1 [OF sp(2)] Let_def using d by simp
qed

lemma py_int_error: "py_int s = Inl e \<Longrightarrow> e = ValueError"
  by (auto simp: py_int_def Let_def split: list.splits if_splits option.splits)

subsection \<open>Decimal text and the digit limit\<close>

lemma digit_val_char_of: "d < 10 \<Longrightarrow> digit_val (char_of (48 + d)) = Some d"
  by (simp add: digit_val_def)

lemma more_digits_pure:
  "\<forall>c \<in> set cs. \<exists>v. digit_val c = Some v \<Longrightarrow>
   more_digits acc cs = Some (foldl (\<lambda>a c. a * 10 + the (digit_val c)) acc cs)"
proof (induction acc cs rule: more_digits.induct)
  case (1 acc)
  then show ?case by simp
next
  case (2 acc c)
  then show ?case by auto
next
  case (3 acc c d ds)
  from "3.prems" obtain v where v: "digit_val c = Some v" by auto
  then have c: "c \<noteq> CHR ''_''" by (rule digit_not_space(5))
  from "3.prems" have rest: "\<forall>c \<in> set (d # ds). \<exists>v. digit_val c = Some v" by simp
  from "3.IH"(2) [OF c v rest] show ?case by (simp add: c v)
qed

lemma digits_pure:
  assumes "cs \<noteq> []" and "\<forall>c \<in> set cs. \<exists>v. digit_val c = Some v"
      and "length cs \<le> int_max_str_digits"
  shows "digits cs = Some (foldl (\<lambda>a c. a * 10 + the (digit_val c)) 0 cs)"
proof -
  from assms(1) obtain c cs' where cs: "cs = c # cs'" by (cases cs) auto
  from assms(2) cs obtain v where v: "digit_val c = Some v" by auto
  from assms(2) cs have rest: "\<forall>c \<in> set cs'. \<exists>v. digit_val c = Some v" by simp
  have "\<forall>c \<in> set cs. c \<noteq> CHR ''_''"
    using assms(2) digit_not_space(5) by blast
  then have "filter (\<lambda>c. c \<noteq> CHR ''_'') cs = cs" by (simp add: filter_id_conv)
  with assms(3) have lim: "\<not> int_max_str_digits < length (filter (\<lambda>c. c \<noteq> CHR ''_'') cs)"
    by simp
  show ?thesis
    unfolding digits_def using lim
    by (simp add: cs [symmetric]) (simp add: cs v more_digits_pure [OF rest])
qed

lemma nat_repr_nonempty: "nat_repr n \<noteq> []"
  by (subst nat_repr.simps) simp

lemma nat_repr_all_digits: "\<forall>c \<in> set (nat_repr n). \<exists>v. digit_val c = Some v"
proof (induction n rule: nat_repr.induct)
  case (1 n)
  show ?case
  proof (cases "n < 10")
    case True
    then show ?thesis
      by (subst nat_repr.simps) (simp add: digit_val_char_of)
  next
    case False
    have "n mod 10 < 10" by simp
    then have "digit_val (char_of (48 + n mod 10)) = Some (n mod 10)"
      by (rule digit_val_char_of)
    with False "1.IH" show ?thesis
      by (subst nat_repr.simps) auto
  qed
qed

lemma nat_repr_value: "foldl (\<lambda>a c. a * 10 + the (digit_val c)) 0 (nat_repr n) = n"
proof (induction n rule: nat_repr.induct)
  case (1 n)
  show ?case
  proof (cases "n < 10")
    case True
    then show ?thesis
      by (subst nat_repr.simps) (simp add: digit_val_char_of)
  next
    case False
    have "n mod 10 < 10" by simp
    then have d: "digit_val (char_of (48 + n mod 10)) = Some (n mod 10)"
      by (rule digit_val_char_of)
    from False "1.IH" show ?thesis
      by (subst nat_repr.simps) (simp add: d)
  qed
qed

lemma digits_nat_repr:
  "length (nat_repr n) \<le> int_max_str_digits \<Longrightarrow> digits (nat_repr n) = Some n"
  using digits_pure [OF nat_repr_nonempty nat_repr_all_digits, of n]
  by (simp add: nat_repr_value)

lemma int_str_roundtrip:
  assumes "int_str i = Inr t"
  shows "py_int t = Inr i"
proof -
  from assms have len: "length (nat_repr (nat \<bar>i\<bar>)) \<le> int_max_str_digits"
    and t: "t = int_repr i"
    by (auto simp: int_str_def split: if_splits)
  note d = digits_nat_repr [OF len]
  show ?thesis
  proof (cases "i < 0")
    case True
    then have "t = CHR ''-'' # nat_repr (nat \<bar>i\<bar>)" by (simp add: t int_repr_def abs_if)
    with py_int_signed(3) [OF d] True show ?thesis by simp
  next
    case False
    then have "t = nat_repr (nat \<bar>i\<bar>)" by (simp add: t int_repr_def abs_if)
    with py_int_signed(1) [OF d] False show ?thesis by simp
  qed
qed

lemma nat_repr_long: "10 ^ k \<le> n \<Longrightarrow> k < length (nat_repr n)"
proof (induction k arbitrary: n)
  case 0
  have "nat_repr n \<noteq> []" by (rule nat_repr_nonempty)
  then show ?case by (cases "nat_repr n") simp_all
next
  case (Suc k)
  have pos: "(1::nat) \<le> 10 ^ k" by simp
  from Suc.prems have "10 * 10 ^ k \<le> n" by simp
  with pos have ge: "\<not> n < 10" by linarith
  from \<open>10 * 10 ^ k \<le> n\<close> have "10 ^ k \<le> n div 10" by (simp add: less_eq_div_iff_mult_less_eq mult.commute)
  from Suc.IH [OF this] ge show ?case
    by (subst nat_repr.simps) simp
qed

lemma nat_repr_short: "n < 10 ^ Suc k \<Longrightarrow> length (nat_repr n) \<le> Suc k"
proof (induction k arbitrary: n)
  case 0
  then show ?case by (subst nat_repr.simps) simp
next
  case (Suc k)
  show ?case
  proof (cases "n < 10")
    case True
    then show ?thesis by (subst nat_repr.simps) simp
  next
    case False
    from Suc.prems have "n div 10 < 10 ^ Suc k"
      by (simp add: less_mult_imp_div_less mult.commute)
    from Suc.IH [OF this] False show ?thesis
      by (subst nat_repr.simps) simp
  qed
qed

lemma int_str_iff:
  "int_str i = (if \<bar>i\<bar> < 10 ^ int_max_str_digits then Inr (int_repr i) else Inl ValueError)"
proof -
  obtain k where k: "int_max_str_digits = Suc k"
    by (simp add: int_max_str_digits_def numeral_eq_Suc)
  show ?thesis
  proof (cases "\<bar>i\<bar> < 10 ^ int_max_str_digits")
    case True
    then have "nat \<bar>i\<bar> < 10 ^ Suc k"
      unfolding k by (simp add: nat_less_iff)
    from nat_repr_short [OF this] True show ?thesis
      by (simp add: int_str_def k)
  next
    case False
    then have "10 ^ int_max_str_digits \<le> nat \<bar>i\<bar>"
      by (simp add: le_nat_iff)
    from nat_repr_long [OF this] False show ?thesis
      by (simp add: int_str_def)
  qed
qed

lemma nines_value:
  "foldl (\<lambda>a c. a * 10 + the (digit_val c)) acc (replicate k (CHR ''9''))
     = acc * 10 ^ k + (10 ^ k - 1)"
proof (induction k arbitrary: acc)
  case 0
  then show ?case by simp
next
  case (Suc k)
  have nine: "digit_val (CHR ''9'') = Some 9" by (simp add: digit_val_def)
  have one: "(1::nat) \<le> 10 ^ k" by simp
  have "foldl (\<lambda>a c. a * 10 + the (digit_val c)) acc (replicate (Suc k) (CHR ''9''))
      = (acc * 10 + 9) * 10 ^ k + (10 ^ k - 1)"
    by (simp add: Suc.IH nine)
  also have "\<dots> = acc * 10 ^ Suc k + (10 ^ Suc k - 1)"
    using one by (simp add: algebra_simps)
  finally show ?case .
qed

lemma digits_nines:
  assumes "0 < k" and "k \<le> int_max_str_digits"
  shows "digits (replicate k (CHR ''9'')) = Some (10 ^ k - 1)"
proof -
  have nine: "digit_val (CHR ''9'') = Some 9" by (simp add: digit_val_def)
  have "digits (replicate k (CHR ''9''))
      = Some (foldl (\<lambda>a c. a * 10 + the (digit_val c)) 0 (replicate k (CHR ''9'')))"
    using assms by (intro digits_pure) (auto simp: nine)
  then show ?thesis by (simp add: nines_value)
qed

subsection \<open>The encoder against the layout of the specification\<close>

lemma int_str_constants:
  "int_str 1200 = Inr ''1200''" "int_str 20 = Inr ''20''" "int_str 36 = Inr ''36''"
  by (simp_all add: int_str_def int_repr_def int_max_str_digits_def nat_repr.simps
        char_of_def bit_Suc_0_iff)

lemma emit_config:
  "emit 0 (JObj
      [(''wifi'', JObj [(''ssid'', JStr ssid), (''password'', JStr password)]),
       (''server'', JObj [(''url'', JStr url)]),
       (''weather'',
          JObj [(''latitude'', JStr lat), (''longitude'', JStr lon),
                (''city'', JStr city), (''units'', JStr units)]),
       (''update'', JObj [(''refreshMs'', JInt ms)]),
       (''display'', JObj [(''width'', JInt 1200), (''sidebarWidthPct'', JInt 20)]),
       (''hardware'', JObj [(''wakeButtonPin'', JInt 36)])])
   = (case int_str ms of
        Inl e \<Rightarrow> (spec_file_prefix ssid password url lat lon city units, Some e)
      | Inr t \<Rightarrow>
          (spec_file_prefix ssid password url lat lon city units @ t @ spec_file_suffix, None))"
proof (cases "int_str ms")
  case (Inl e)
  then show ?thesis
    by (simp add: int_str_constants spec_file_prefix_def newline_indent_def encode_str_def
          escape_char_def)
next
  case (Inr t)
  then show ?thesis
    by (simp add: int_str_constants spec_file_prefix_def spec_file_suffix_def
          newline_indent_def encode_str_def escape_char_def)
qed

lemma int_str_error: "int_str i = Inl e \<Longrightarrow> e = ValueError"
  by (simp add: int_str_def split: if_splits)

subsection \<open>Whole runs\<close>

lemma main_run:
  assumes b1: "\<forall>b \<in> set bs1. strip b = []" and l1: "strip l1 \<noteq> []"
      and b2: "\<forall>b \<in> set bs2. strip b = []" and l2: "strip l2 \<noteq> []"
      and h: "py_int (if strip a8 \<noteq> [] then strip a8 else ''24'') = Inr h"
      and t: "int_str (h * 3600000) = Inr t"
      and d: "f ''data'' = None \<or> f ''data'' = Some Dir"
      and c: "f ''data/config.json'' \<noteq> Some Dir"
  shows "\<exists>cfg w1 w'.
           main_collect
             \<lparr>stdin = bs1 @ l1 # bs2 @ l2 # a3 # a4 # a5 # a6 # a7 # a8 # rest,
              stdout = out, fs = f\<rparr> = (Inr cfg, w1)
         \<and> main
             \<lparr>stdin = bs1 @ l1 # bs2 @ l2 # a3 # a4 # a5 # a6 # a7 # a8 # rest,
              stdout = out, fs = f\<rparr> = (Inr (), w')
         \<and> stdin w' = rest
         \<and> fs w' = f(''data'' \<mapsto> Dir, ''data/config.json'' \<mapsto> File (json_dumps cfg))
         \<and> json_dumps cfg
             = spec_file_prefix (strip l1) (strip l2)
                 (if strip a3 = [] then ''http://httpbin.org/image/jpeg'' else strip a3)
                 (if strip a5 = [] then ''47.6062'' else strip a5)
                 (if strip a6 = [] then ''-122.3321'' else strip a6)
                 (if strip a4 = [] then ''Seattle'' else strip a4)
                 (if strip a7 = [] then ''fahrenheit'' else strip a7)
               @ t @ spec_file_suffix
         \<and> lookup cfg [''wifi'', ''ssid''] = Some (JStr (strip l1))
         \<and> lookup cfg [''wifi'', ''password''] = Some (JStr (strip l2))
         \<and> lookup cfg [''server'', ''url'']
             = Some (JStr (if strip a3 = [] then ''http://httpbin.org/image/jpeg'' else strip a3))
         \<and> lookup cfg [''weather'', ''city'']
             = Some (JStr (if strip a4 = [] then ''Seattle'' else strip a4))
         \<and> lookup cfg [''weather'', ''latitude'']
             = Some (JStr (if strip a5 = [] then ''47.6062'' else strip a5))
         \<and> lookup cfg [''weather'', ''longitude'']
             = Some (JStr (if strip a6 = [] then ''-122.3321'' else strip a6))
         \<and> lookup cfg [''weather'', ''units'']
             = Some (JStr (if strip a7 = [] then ''fahrenheit'' else strip a7))
         \<and> lookup cfg [''update'', ''refreshMs''] = Some (JInt (h * 3600000))
         \<and> lookup cfg [''display'', ''width''] = Some (JInt 1200)
         \<and> lookup cfg [''display'', ''sidebarWidthPct''] = Some (JInt 20)
         \<and> lookup cfg [''hardware'', ''wakeButtonPin''] = Some (JInt 36)"
proof -
  let ?W = "\<lparr>stdin = bs1 @ l1 # bs2 @ l2 # a3 # a4 # a5 # a6 # a7 # a8 # rest,
              stdout = out, fs = f\<rparr>"
  let ?cfg = "JObj
      [(''wifi'', JObj [(''ssid'', JStr (strip l1)), (''password'', JStr (strip l2))]),
       (''server'',
          JObj [(''url'', JStr (if strip a3 \<noteq> [] then strip a3
                                else ''http://httpbin.org/image/jpeg''))]),
       (''weather'',
          JObj [(''latitude'', JStr (if strip a5 \<noteq> [] then strip a5 else ''47.6062'')),
                (''longitude'', JStr (if strip a6 \<noteq> [] then strip a6 else ''-122.3321'')),
                (''city'', JStr (if strip a4 \<noteq> [] then strip a4 else ''Seattle'')),
                (''units'', JStr (if strip a7 \<noteq> [] then strip a7 else ''fahrenheit''))]),
       (''update'', JObj [(''refreshMs'', JInt (h * 60 * 60 * 1000))]),
       (''display'', JObj [(''width'', JInt 1200), (''sidebarWidthPct'', JInt 20)]),
       (''hardware'', JObj [(''wakeButtonPin'', JInt 36)])]"
  note run = main_collect_run [OF b1 l1 b2 l2, of a3 a4 a5 a6 a7 a8 rest out f,
      unfolded h sum.case]
  obtain w1 where cw: "main_collect ?W = (Inr ?cfg, w1)"
    and w1: "stdin w1 = rest" "fs w1 = f"
    using run by simp
  obtain o1 where w1r: "w1 = \<lparr>stdin = rest, stdout = o1, fs = f\<rparr>"
    using w1 by (cases w1) auto
  have ms: "h * 60 * 60 * 1000 = h * 3600000" by simp
  have t': "int_str (h * 60 * 60 * 1000) = Inr t" unfolding ms by (rule t)
  have em: "emit 0 ?cfg
      = (spec_file_prefix (strip l1) (strip l2)
          (if strip a3 \<noteq> [] then strip a3 else ''http://httpbin.org/image/jpeg'')
          (if strip a5 \<noteq> [] then strip a5 else ''47.6062'')
          (if strip a6 \<noteq> [] then strip a6 else ''-122.3321'')
          (if strip a4 \<noteq> [] then strip a4 else ''Seattle'')
          (if strip a7 \<noteq> [] then strip a7 else ''fahrenheit'')
         @ t @ spec_file_suffix, None)"
    unfolding emit_config t' by simp
  have je: "json_error ?cfg = None" by (simp only: json_error_def em snd_conv)
  have jd: "json_dumps ?cfg
      = spec_file_prefix (strip l1) (strip l2)
          (if strip a3 = [] then ''http://httpbin.org/image/jpeg'' else strip a3)
          (if strip a5 = [] then ''47.6062'' else strip a5)
          (if strip a6 = [] then ''-122.3321'' else strip a6)
          (if strip a4 = [] then ''Seattle'' else strip a4)
          (if strip a7 = [] then ''fahrenheit'' else strip a7)
         @ t @ spec_file_suffix"
    unfolding json_dumps_def em fst_conv
    by (rule arg_cong [where f = "\<lambda>p. p @ t @ spec_file_suffix"]) (simp cong: if_cong)
  have m: "main ?W = main_persist ?cfg w1"
    by (simp only: main_eq cw prod.case sum.case)
  note p = main_persist_ok [OF d c je, of rest o1]
  have looks:
    "lookup ?cfg [''wifi'', ''ssid''] = Some (JStr (strip l1))"
    "lookup ?cfg [''wifi'', ''password''] = Some (JStr (strip l2))"
    "lookup ?cfg [''server'', ''url'']
             = Some (JStr (if strip a3 = [] then ''http://httpbin.org/image/jpeg'' else strip a3))"
    "lookup ?cfg [''weather'', ''city'']
             = Some (JStr (if strip a4 = [] then ''Seattle'' else strip a4))"
    "lookup ?cfg [''weather'', ''latitude'']
             = Some (JStr (if strip a5 = [] then ''47.6062'' else strip a5))"
    "lookup ?cfg [''weather'', ''longitude'']
             = Some (JStr (if strip a6 = [] then ''-122.3321'' else strip a6))"
    "lookup ?cfg [''weather'', ''units'']
             = Some (JStr (if strip a7 = [] then ''fahrenheit'' else strip a7))"
    "lookup ?cfg [''update'', ''refreshMs''] = Some (JInt (h * 3600000))"
    "lookup ?cfg [''display'', ''width''] = Some (JInt 1200)"
    "lookup ?cfg [''display'', ''sidebarWidthPct''] = Some (JInt 20)"
    "lookup ?cfg [''hardware'', ''wakeButtonPin''] = Some (JInt 36)"
    by auto
  show ?thesis
    apply (rule exI [of _ ?cfg], rule exI [of _ w1])
    apply (rule exI)
    apply (intro conjI)
                   apply (rule cw)
                  apply (simp only: m w1r, rule p)
                 apply simp
                apply simp
               apply (rule jd)
              apply (rule looks)+
    done
qed

lemma main_run_raises:
  assumes b1: "\<forall>b \<in> set bs1. strip b = []" and l1: "strip l1 \<noteq> []"
      and b2: "\<forall>b \<in> set bs2. strip b = []" and l2: "strip l2 \<noteq> []"
      and h: "py_int (if strip a8 \<noteq> [] then strip a8 else ''24'') = Inr h"
      and t: "int_str (h * 3600000) = Inl e"
      and d: "f ''data'' = None \<or> f ''data'' = Some Dir"
      and c: "f ''data/config.json'' \<noteq> Some Dir"
  shows "\<exists>w'.
           main
             \<lparr>stdin = bs1 @ l1 # bs2 @ l2 # a3 # a4 # a5 # a6 # a7 # a8 # rest,
              stdout = out, fs = f\<rparr> = (Inl ValueError, w')
         \<and> stdin w' = rest
         \<and> fs w' = f(''data'' \<mapsto> Dir,
                      ''data/config.json'' \<mapsto> File
                        (spec_file_prefix (strip l1) (strip l2)
                           (if strip a3 = [] then ''http://httpbin.org/image/jpeg'' else strip a3)
                           (if strip a5 = [] then ''47.6062'' else strip a5)
                           (if strip a6 = [] then ''-122.3321'' else strip a6)
                           (if strip a4 = [] then ''Seattle'' else strip a4)
                           (if strip a7 = [] then ''fahrenheit'' else strip a7)))"
proof -
  let ?W = "\<lparr>stdin = bs1 @ l1 # bs2 @ l2 # a3 # a4 # a5 # a6 # a7 # a8 # rest,
              stdout = out, fs = f\<rparr>"
  let ?cfg = "JObj
      [(''wifi'', JObj [(''ssid'', JStr (strip l1)), (''password'', JStr (strip l2))]),
       (''server'',
          JObj [(''url'', JStr (if strip a3 \<noteq> [] then strip a3
                                else ''http://httpbin.org/image/jpeg''))]),
       (''weather'',
          JObj [(''latitude'', JStr (if strip a5 \<noteq> [] then strip a5 else ''47.6062'')),
                (''longitude'', JStr (if strip a6 \<noteq> [] then strip a6 else ''-122.3321'')),
                (''city'', JStr (if strip a4 \<noteq> [] then strip a4 else ''Seattle'')),
                (''units'', JStr (if strip a7 \<noteq> [] then strip a7 else ''fahrenheit''))]),
       (''update'', JObj [(''refreshMs'', JInt (h * 60 * 60 * 1000))]),
       (''display'', JObj [(''width'', JInt 1200), (''sidebarWidthPct'', JInt 20)]),
       (''hardware'', JObj [(''wakeButtonPin'', JInt 36)])]"
  let ?pre = "spec_file_prefix (strip l1) (strip l2)
          (if strip a3 = [] then ''http://httpbin.org/image/jpeg'' else strip a3)
          (if strip a5 = [] then ''47.6062'' else strip a5)
          (if strip a6 = [] then ''-122.3321'' else strip a6)
          (if strip a4 = [] then ''Seattle'' else strip a4)
          (if strip a7 = [] then ''fahrenheit'' else strip a7)"
  note run = main_collect_run [OF b1 l1 b2 l2, of a3 a4 a5 a6 a7 a8 rest out f,
      unfolded h sum.case]
  obtain w1 where cw: "main_collect ?W = (Inr ?cfg, w1)"
    and w1: "stdin w1 = rest" "fs w1 = f"
    using run by simp
  obtain o1 where w1r: "w1 = \<lparr>stdin = rest, stdout = o1, fs = f\<rparr>"
    using w1 by (cases w1) auto
  have e: "e = ValueError" using t by (rule int_str_error)
  have ms: "h * 60 * 60 * 1000 = h * 3600000" by simp
  have t': "int_str (h * 60 * 60 * 1000) = Inl ValueError" unfolding ms using t e by simp
  have em: "emit 0 ?cfg
      = (spec_file_prefix (strip l1) (strip l2)
          (if strip a3 \<noteq> [] then strip a3 else ''http://httpbin.org/image/jpeg'')
          (if strip a5 \<noteq> [] then strip a5 else ''47.6062'')
          (if strip a6 \<noteq> [] then strip a6 else ''-122.3321'')
          (if strip a4 \<noteq> [] then strip a4 else ''Seattle'')
          (if strip a7 \<noteq> [] then strip a7 else ''fahrenheit''), Some ValueError)"
    unfolding emit_config t' by simp
  have je: "json_error ?cfg = Some ValueError" by (simp only: json_error_def em snd_conv)
  have jd: "json_dumps ?cfg = ?pre"
    unfolding json_dumps_def em fst_conv by (simp cong: if_cong)
  have m: "main ?W = main_persist ?cfg w1"
    by (simp only: main_eq cw prod.case sum.case)
  note p = main_persist_raises [OF d c je, of rest o1]
  show ?thesis
    apply (rule exI)
    apply (intro conjI)
      apply (simp only: m w1r, rule p)
     apply simp
    apply (simp only: world.simps jd)
    done
qed

lemma homenet_prefix:
  "spec_file_prefix ''HomeNet'' ''secret123'' ''http://httpbin.org/image/jpeg''
     ''47.6062'' ''-122.3321'' ''Seattle'' ''fahrenheit''
   = ''{\<newline>'' @
           ''  \"wifi\": {\<newline>'' @
           ''    \"ssid\": \"HomeNet\",\<newline>'' @
           ''    \"password\": \"secret123\"\<newline>'' @
           ''  },\<newline>'' @
           ''  \"server\": {\<newline>'' @
           ''    \"url\": \"http://httpbin.org/image/jpeg\"\<newline>'' @
           ''  },\<newline>'' @
           ''  \"weather\": {\<newline>'' @
           ''    \"latitude\": \"47.6062\",\<newline>'' @
           ''    \"longitude\": \"-122.3321\",\<newline>'' @
           ''    \"city\": \"Seattle\",\<newline>'' @
           ''    \"units\": \"fahrenheit\"\<newline>'' @
           ''  },\<newline>'' @
           ''  \"update\": {\<newline>'' @
           ''    \"refreshMs\": ''"
  by (simp add: spec_file_prefix_def encode_str_def escape_char_def)

lemma int_str_day: "int_str 86400000 = Inr ''86400000''"
  by (simp add: int_str_def int_repr_def int_max_str_digits_def nat_repr.simps
        char_of_def bit_Suc_0_iff)

lemma int_str_hour:
  "int_str 3600000 = Inr ''3600000''" "int_str (- 3600000) = Inr ''-3600000''"
  by (simp_all add: int_str_def int_repr_def int_max_str_digits_def nat_repr.simps
        char_of_def bit_Suc_0_iff)

lemma homenet_dump:
  "json_dumps (JObj
      [(''wifi'', JObj [(''ssid'', JStr ''HomeNet''), (''password'', JStr ''secret123'')]),
       (''server'', JObj [(''url'', JStr ''http://httpbin.org/image/jpeg'')]),
       (''weather'',
          JObj [(''latitude'', JStr ''47.6062''), (''longitude'', JStr ''-122.3321''),
                (''city'', JStr ''Seattle''), (''units'', JStr ''fahrenheit'')]),
       (''update'', JObj [(''refreshMs'', JInt 86400000)]),
       (''display'', JObj [(''width'', JInt 1200), (''sidebarWidthPct'', JInt 20)]),
       (''hardware'', JObj [(''wakeButtonPin'', JInt 36)])])
     = ''{\<newline>'' @
           ''  \"wifi\": {\<newline>'' @
           ''    \"ssid\": \"HomeNet\",\<newline>'' @
           ''    \"password\": \"secret123\"\<newline>'' @
           ''  },\<newline>'' @
           ''  \"server\": {\<newline>'' @
           ''    \"url\": \"http://httpbin.org/image/jpeg\"\<newline>'' @
           ''  },\<newline>'' @
           ''  \"weather\": {\<newline>'' @
           ''    \"latitude\": \"47.6062\",\<newline>'' @
           ''    \"longitude\": \"-122.3321\",\<newline>'' @
           ''    \"city\": \"Seattle\",\<newline>'' @
           ''    \"units\": \"fahrenheit\"\<newline>'' @
           ''  },\<newline>'' @
           ''  \"update\": {\<newline>'' @
           ''    \"refreshMs\": 86400000\<newline>'' @
           ''  },\<newline>'' @
           ''  \"display\": {\<newline>'' @
           ''    \"width\": 1200,\<newline>'' @
           ''    \"sidebarWidthPct\": 20\<newline>'' @
           ''  },\<newline>'' @
           ''  \"hardware\": {\<newline>'' @
           ''    \"wakeButtonPin\": 36\<newline>'' @
           ''  }\<newline>'' @
           ''}''"
  "json_error (JObj
      [(''wifi'', JObj [(''ssid'', JStr ''HomeNet''), (''password'', JStr ''secret123'')]),
       (''server'', JObj [(''url'', JStr ''http://httpbin.org/image/jpeg'')]),
       (''weather'',
          JObj [(''latitude'', JStr ''47.6062''), (''longitude'', JStr ''-122.3321''),
                (''city'', JStr ''Seattle''), (''units'', JStr ''fahrenheit'')]),
       (''update'', JObj [(''refreshMs'', JInt 86400000)]),
       (''display'', JObj [(''width'', JInt 1200), (''sidebarWidthPct'', JInt 20)]),
       (''hardware'', JObj [(''wakeButtonPin'', JInt 36)])]) = None"
  unfolding json_dumps_def json_error_def emit_config int_str_day sum.case fst_conv snd_conv
    homenet_prefix spec_file_suffix_def
  by simp_all

lemma strip_nines: "0 < k \<Longrightarrow> strip (sg @ replicate k (CHR ''9'')) = sg @ replicate k (CHR ''9'')"
  if "sg = [] \<or> sg = ''+'' \<or> sg = ''-''"
proof -
  assume k: "0 < k"
  have sp: "\<not> isspace (CHR ''9'')" "\<not> isspace (CHR ''+'')" "\<not> isspace (CHR ''-'')"
    by (simp_all add: isspace_def)
  have ne: "sg @ replicate k (CHR ''9'') \<noteq> []" using k by simp
  have h: "\<not> isspace (hd (sg @ replicate k (CHR ''9'')))"
    using that k sp by (auto simp: hd_replicate)
  have l: "\<not> isspace (last (sg @ replicate k (CHR ''9'')))"
    using k sp by (simp add: last_replicate)
  from strip_surround [of "[]" "[]" "sg @ replicate k (CHR ''9'')", OF _ _ ne h l]
  show ?thesis by simp
qed

lemma nines_run:
  assumes k: "0 < k" "k \<le> int_max_str_digits"
      and big: "(10::int) ^ int_max_str_digits \<le> (10 ^ k - 1) * 3600000"
      and sg: "sg = [] \<or> sg = ''+'' \<or> sg = ''-''"
      and d: "f ''data'' = None \<or> f ''data'' = Some Dir"
      and c: "f ''data/config.json'' \<noteq> Some Dir"
  shows "py_int (sg @ replicate k (CHR ''9''))
           = Inr (if sg = ''-'' then - (10 ^ k - 1) else 10 ^ k - 1)"
    and "\<exists>w'.
           main
             \<lparr>stdin = [''HomeNet'', ''secret123'', '''', '''', '''', '''', '''',
                       sg @ replicate k (CHR ''9'')],
              stdout = out, fs = f\<rparr> = (Inl ValueError, w')
         \<and> fs w' = f(''data'' \<mapsto> Dir,
                      ''data/config.json'' \<mapsto> File
                        (''{\<newline>'' @
           ''  \"wifi\": {\<newline>'' @
           ''    \"ssid\": \"HomeNet\",\<newline>'' @
           ''    \"password\": \"secret123\"\<newline>'' @
           ''  },\<newline>'' @
           ''  \"server\": {\<newline>'' @
           ''    \"url\": \"http://httpbin.org/image/jpeg\"\<newline>'' @
           ''  },\<newline>'' @
           ''  \"weather\": {\<newline>'' @
           ''    \"latitude\": \"47.6062\",\<newline>'' @
           ''    \"longitude\": \"-122.3321\",\<newline>'' @
           ''    \"city\": \"Seattle\",\<newline>'' @
           ''    \"units\": \"fahrenheit\"\<newline>'' @
           ''  },\<newline>'' @
           ''  \"update\": {\<newline>'' @
           ''    \"refreshMs\": ''))"
proof -
  let ?v = "if sg = ''-'' then - ((10::int) ^ k - 1) else 10 ^ k - 1"
  have one: "(1::nat) \<le> 10 ^ k" by simp
  have val: "int (10 ^ k - 1) = 10 ^ k - 1" using one by (simp add: of_nat_diff)
  from py_int_signed [OF digits_nines [OF k]] sg
  show p: "py_int (sg @ replicate k (CHR ''9'')) = Inr ?v"
    by (auto simp: val)
  have s: "strip (sg @ replicate k (CHR ''9'')) = sg @ replicate k (CHR ''9'')"
    using sg k(1) by (rule strip_nines)
  have ne: "sg @ replicate k (CHR ''9'') \<noteq> []" using k(1) by simp
  have h: "py_int (if strip (sg @ replicate k (CHR ''9'')) \<noteq> []
                   then strip (sg @ replicate k (CHR ''9'')) else ''24'') = Inr ?v"
    unfolding s using p ne by simp
  have "\<bar>?v * 3600000\<bar> = (10 ^ k - 1) * 3600000"
    using one by (auto simp: abs_mult)
  with big have "\<not> \<bar>?v * 3600000\<bar> < 10 ^ int_max_str_digits" by simp
  then have t: "int_str (?v * 3600000) = Inl ValueError"
    by (simp only: int_str_iff if_False)
  have e: "strip '''' = []" by (simp add: strip_def)
  have b: "\<forall>b \<in> set ([] :: string list). strip b = []" by simp
  have s1: "strip ''HomeNet'' = ''HomeNet''" and s2: "strip ''secret123'' = ''secret123''"
    by (simp_all add: strip_def isspace_def)
  have l1: "strip ''HomeNet'' \<noteq> []" by (simp add: s1)
  have l2: "strip ''secret123'' \<noteq> []" by (simp add: s2)
  have pre: "spec_file_prefix (strip ''HomeNet'') (strip ''secret123'')
               (if strip '''' = [] then ''http://httpbin.org/image/jpeg'' else strip '''')
               (if strip '''' = [] then ''47.6062'' else strip '''')
               (if strip '''' = [] then ''-122.3321'' else strip '''')
               (if strip '''' = [] then ''Seattle'' else strip '''')
               (if strip '''' = [] then ''fahrenheit'' else strip '''')
             = spec_file_prefix ''HomeNet'' ''secret123'' ''http://httpbin.org/image/jpeg''
                 ''47.6062'' ''-122.3321'' ''Seattle'' ''fahrenheit''"
    by (simp only: e s1 s2 if_True refl)
  note r = main_run_raises
    [OF b l1 b l2 h t d c, of "''''" "''''" "''''" "''''" "''''" "[]" out]
  from r show "\<exists>w'.
           main
             \<lparr>stdin = [''HomeNet'', ''secret123'', '''', '''', '''', '''', '''',
                       sg @ replicate k (CHR ''9'')],
              stdout = out, fs = f\<rparr> = (Inl ValueError, w')
         \<and> fs w' = f(''data'' \<mapsto> Dir,
                      ''data/config.json'' \<mapsto> File
                        (''{\<newline>'' @
           ''  \"wifi\": {\<newline>'' @
           ''    \"ssid\": \"HomeNet\",\<newline>'' @
           ''    \"password\": \"secret123\"\<newline>'' @
           ''  },\<newline>'' @
           ''  \"server\": {\<newline>'' @
           ''    \"url\": \"http://httpbin.org/image/jpeg\"\<newline>'' @
           ''  },\<newline>'' @
           ''  \"weather\": {\<newline>'' @
           ''    \"latitude\": \"47.6062\",\<newline>'' @
           ''    \"longitude\": \"-122.3321\",\<newline>'' @
           ''    \"city\": \"Seattle\",\<newline>'' @
           ''    \"units\": \"fahrenheit\"\<newline>'' @
           ''  },\<newline>'' @
           ''  \"update\": {\<newline>'' @
           ''    \"refreshMs\": ''))"
    unfolding pre homenet_prefix append_Nil by blast
qed

lemma limit_exceeded: "(10::int) ^ int_max_str_digits \<le> (10 ^ int_max_str_digits - 1) * 3600000"
proof -
  have "(10::int) \<le> 10 ^ int_max_str_digits"
    by (rule self_le_power) (simp_all add: int_max_str_digits_def)
  then show ?thesis by (simp add: algebra_simps)
qed

lemma small_product: "\<bar>i\<bar> < 10 ^ 12 \<Longrightarrow> \<bar>i :: int\<bar> < 10 ^ int_max_str_digits"
proof -
  assume "\<bar>i\<bar> < 10 ^ 12"
  moreover have "(10::int) ^ 12 \<le> 10 ^ int_max_str_digits"
    by (rule power_increasing) (simp_all add: int_max_str_digits_def)
  ultimately show ?thesis by (rule less_le_trans)
qed

lemma int_repr_hour: "int_repr 3600000 = ''3600000''" "int_repr (- 3600000) = ''-3600000''"
  "int_repr 86400000 = ''86400000''"
  by (simp_all add: int_repr_def nat_repr.simps char_of_def bit_Suc_0_iff)

lemma homenet_answers:
  "spec_file_prefix (strip ''HomeNet'') (strip ''secret123'')
     (if strip '''' = [] then ''http://httpbin.org/image/jpeg'' else strip '''')
     (if strip '''' = [] then ''47.6062'' else strip '''')
     (if strip '''' = [] then ''-122.3321'' else strip '''')
     (if strip '''' = [] then ''Seattle'' else strip '''')
     (if strip '''' = [] then ''fahrenheit'' else strip '''')
   = spec_file_prefix ''HomeNet'' ''secret123'' ''http://httpbin.org/image/jpeg''
       ''47.6062'' ''-122.3321'' ''Seattle'' ''fahrenheit''"
  by (simp add: strip_def isspace_def)

section \<open>The claims\<close>

text \<open>
  C3. Without a default, \<open>get_input\<close> asks again as long as the stripped answer is empty
  and returns the first stripped answer that is not: after any number of blank lines
  \<open>bs1\<close> and a line \<open>l1\<close> that is not blank, the result is \<open>strip l1\<close>, the blank lines
  and \<open>l1\<close> have been consumed, and one prompt has been printed for each line read.
  In a run of the eight questions the values so obtained are the ones stored under
  \<open>wifi.ssid\<close> and \<open>wifi.password\<close>.
\<close>

theorem required_prompt_returns_first_nonblank:
  assumes "\<forall>b \<in> set bs1. strip b = []" and "strip l1 \<noteq> []"
      and "\<forall>b \<in> set bs2. strip b = []" and "strip l2 \<noteq> []"
      and "py_int (if strip a8 \<noteq> [] then strip a8 else ''24'') = Inr h"
  shows "get_input p None \<lparr>stdin = bs1 @ l1 # rest, stdout = out, fs = f\<rparr>
           = (Inr (strip l1),
              \<lparr>stdin = rest,
               stdout = out @ (p @ '': '') # replicate (length bs1) (p @ '' (required): ''),
               fs = f\<rparr>)
       \<and> (\<exists>cfg w'.
             main_collect
               \<lparr>stdin = bs1 @ l1 # bs2 @ l2 # a3 # a4 # a5 # a6 # a7 # a8 # rest,
                stdout = out, fs = f\<rparr> = (Inr cfg, w')
           \<and> lookup cfg [''wifi'', ''ssid''] = Some (JStr (strip l1))
           \<and> lookup cfg [''wifi'', ''password''] = Some (JStr (strip l2)))"
proof
  show "get_input p None \<lparr>stdin = bs1 @ l1 # rest, stdout = out, fs = f\<rparr>
           = (Inr (strip l1),
              \<lparr>stdin = rest,
               stdout = out @ (p @ '': '') # replicate (length bs1) (p @ '' (required): ''),
               fs = f\<rparr>)"
    using assms(1,2) by (rule get_input_required_run)
next
  show "\<exists>cfg w'.
             main_collect
               \<lparr>stdin = bs1 @ l1 # bs2 @ l2 # a3 # a4 # a5 # a6 # a7 # a8 # rest,
                stdout = out, fs = f\<rparr> = (Inr cfg, w')
           \<and> lookup cfg [''wifi'', ''ssid''] = Some (JStr (strip l1))
           \<and> lookup cfg [''wifi'', ''password''] = Some (JStr (strip l2))"
    unfolding main_collect_run [OF assms(1-4)] assms(5) sum.case
    by (intro exI conjI, rule refl) simp_all
qed

theorem required_prompt_returns_first_nonblank_witness:
  "get_input ''WiFi SSID'' None
     \<lparr>stdin = ['''', ''   '', '' HomeNet '', ''next''], stdout = [], fs = Map.empty\<rparr>
     = (Inr ''HomeNet'',
        \<lparr>stdin = [''next''],
         stdout = [''WiFi SSID: '', ''WiFi SSID (required): '', ''WiFi SSID (required): ''],
         fs = Map.empty\<rparr>)
   \<and> (\<exists>cfg w'.
         main_collect
           \<lparr>stdin = ['''', ''   '', '' HomeNet '', '''', ''secret123'',
                     '''', '''', '''', '''', '''', '''', ''next''],
            stdout = [], fs = Map.empty\<rparr> = (Inr cfg, w')
       \<and> lookup cfg [''wifi'', ''ssid''] = Some (JStr ''HomeNet'')
       \<and> lookup cfg [''wifi'', ''password''] = Some (JStr ''secret123''))"
proof -
  have b1: "\<forall>b \<in> set ['''', ''   '']. strip b = []"
    by (simp add: strip_def isspace_def)
  have l1: "strip '' HomeNet '' \<noteq> []" and s1: "strip '' HomeNet '' = ''HomeNet''"
    by (simp_all add: strip_def isspace_def)
  have b2: "\<forall>b \<in> set ['''']. strip b = []"
    by (simp add: strip_def)
  have l2: "strip ''secret123'' \<noteq> []" and s2: "strip ''secret123'' = ''secret123''"
    by (simp_all add: strip_def isspace_def)
  have h: "py_int (if strip '''' \<noteq> [] then strip '''' else ''24'') = Inr 24"
    by (simp add: strip_def py_int_def int_space_def digits_def digit_val_def int_max_str_digits_def)
  show ?thesis
    using required_prompt_returns_first_nonblank
      [OF b1 l1 b2 l2 h, of "''WiFi SSID''" "[''next'']" "[]" Map.empty "''''" "''''" "''''" "''''" "''''"]
    by (simp add: s1 s2)
qed

text \<open>
  C4, as amended. With a default that is not the empty string, \<open>get_input\<close> reads one
  line: when the stripped answer is empty it returns the default itself, otherwise it
  returns the stripped answer. The prompt shows the default in brackets. (For the empty
  string as default the statement fails: see the counterexample that follows.)
\<close>

theorem default_prompt_returns_default_or_answer:
  assumes "d \<noteq> []"
  shows "get_input p (Some d) \<lparr>stdin = a # rest, stdout = out, fs = f\<rparr>
           = (Inr (if strip a = [] then d else strip a),
              \<lparr>stdin = rest, stdout = out @ [p @ '' ['' @ d @ '']: ''], fs = f\<rparr>)"
  using get_input_default_run [OF assms, of p a rest out f] by simp

theorem default_prompt_returns_default_or_answer_witness:
  "get_input ''City name'' (Some ''Seattle'')
     \<lparr>stdin = [''  '', ''next''], stdout = [], fs = Map.empty\<rparr>
     = (Inr ''Seattle'',
        \<lparr>stdin = [''next''], stdout = [''City name [Seattle]: ''], fs = Map.empty\<rparr>)"
proof -
  have d: "''Seattle'' \<noteq> []" by simp
  have s: "strip ''  '' = []" by (simp add: strip_def isspace_def)
  show ?thesis
    using default_prompt_returns_default_or_answer
      [OF d, of "''City name''" "''  ''" "[''next'']" "[]" Map.empty]
    by (simp add: s)
qed

text \<open>
  The claim as written, for every value of the default: with the empty string as
  default and an empty first answer, the default is not returned; the question is asked
  again and the next answer comes back.
\<close>

theorem empty_default_not_returned_counterexample:
  "strip '''' = []
   \<and> fst (get_input ''Label'' (Some '''')
            \<lparr>stdin = ['''', ''x''], stdout = [], fs = Map.empty\<rparr>) = Inr ''x''
   \<and> Inr ''x'' \<noteq> (Inr '''' :: error + string)"
  by (simp add: strip_def isspace_def get_input_def input_def
        while_not_response.simps [of _ "[]"] while_not_response.simps [of _ "''x''"])

text \<open>
  C9. The test \<open>if default:\<close> is on the truth value of the default. With the empty
  string as default \<open>get_input\<close> is the same action as without a default: it asks again
  on an empty answer and never returns the empty string. With any other default the
  branch of the default is taken: one line is read under the prompt that shows the
  default, and an empty answer yields the default.
\<close>

theorem empty_default_is_no_default:
  "get_input p (Some []) = get_input p None
   \<and> (\<forall>w s w'. get_input p (Some []) w = (Inr s, w') \<longrightarrow> s \<noteq> [])
   \<and> (d \<noteq> [] \<longrightarrow>
        get_input p (Some d) \<lparr>stdin = a # rest, stdout = out, fs = f\<rparr>
          = (Inr (if strip a = [] then d else strip a),
             \<lparr>stdin = rest, stdout = out @ [p @ '' ['' @ d @ '']: ''], fs = f\<rparr>))"
proof (intro conjI allI impI)
  show "get_input p (Some []) = get_input p None"
    by (rule ext) (simp add: get_input_def)
next
  fix w s w'
  assume "get_input p (Some []) w = (Inr s, w')"
  then show "s \<noteq> []" by (rule get_input_nonempty)
next
  assume "d \<noteq> []"
  from get_input_default_run [OF this, of p a rest out f]
  show "get_input p (Some d) \<lparr>stdin = a # rest, stdout = out, fs = f\<rparr>
          = (Inr (if strip a = [] then d else strip a),
             \<lparr>stdin = rest, stdout = out @ [p @ '' ['' @ d @ '']: ''], fs = f\<rparr>)"
    by simp
qed

theorem empty_default_is_no_default_witness:
  "get_input ''Label'' (Some []) = get_input ''Label'' None
   \<and> get_input ''Label'' (Some []) \<lparr>stdin = ['''', ''x''], stdout = [], fs = Map.empty\<rparr>
       = (Inr ''x'',
          \<lparr>stdin = [], stdout = [''Label: '', ''Label (required): ''], fs = Map.empty\<rparr>)
   \<and> ''x'' \<noteq> []
   \<and> get_input ''Label'' (Some ''24'') \<lparr>stdin = [''''], stdout = [], fs = Map.empty\<rparr>
       = (Inr ''24'', \<lparr>stdin = [], stdout = [''Label [24]: ''], fs = Map.empty\<rparr>)"
proof -
  let ?w = "\<lparr>stdin = ['''', ''x''], stdout = [], fs = Map.empty\<rparr>"
  let ?w' = "\<lparr>stdin = [], stdout = [''Label: '', ''Label (required): ''], fs = Map.empty\<rparr>"
  note t = empty_default_is_no_default
    [of "''Label''" "''24''" "''''" "[]" "[]" Map.empty]
  have run: "get_input ''Label'' None ?w = (Inr ''x'', ?w')"
    using get_input_required_run [of "['''']" "''x''" "''Label''" "[]" "[]" Map.empty]
    by (simp add: strip_def isspace_def)
  from t have e: "get_input ''Label'' (Some []) = get_input ''Label'' None" by blast
  from t have n: "get_input ''Label'' (Some []) ?w = (Inr ''x'', ?w') \<longrightarrow> ''x'' \<noteq> []"
    by blast
  from t have d: "get_input ''Label'' (Some ''24'') \<lparr>stdin = [''''], stdout = [], fs = Map.empty\<rparr>
       = (Inr ''24'', \<lparr>stdin = [], stdout = [''Label [24]: ''], fs = Map.empty\<rparr>)"
    by (simp add: strip_def)
  from e run n d show ?thesis by simp
qed

text \<open>
  C7. A run that finds its eight answers asks for them in one fixed order: the SSID and
  the password without a default (each asked again after a blank line), then the image
  URL, the city, the latitude, the longitude, the units and the refresh interval, each
  with its default shown in brackets. The transcript below is everything the run prints
  up to the construction of the configuration; the \<open>i\<close>-th answer, stripped, or the
  default of the \<open>i\<close>-th question when that is empty, is the value of the \<open>i\<close>-th field.
\<close>

theorem prompts_in_fixed_order_with_defaults:
  assumes "\<forall>b \<in> set bs1. strip b = []" and "strip l1 \<noteq> []"
      and "\<forall>b \<in> set bs2. strip b = []" and "strip l2 \<noteq> []"
      and "py_int (if strip a8 = [] then ''24'' else strip a8) = Inr h"
  shows "main_collect
           \<lparr>stdin = bs1 @ l1 # bs2 @ l2 # a3 # a4 # a5 # a6 # a7 # a8 # rest,
            stdout = out, fs = f\<rparr>
     = (Inr (JObj
          [(''wifi'', JObj [(''ssid'', JStr (strip l1)), (''password'', JStr (strip l2))]),
           (''server'',
              JObj [(''url'', JStr (if strip a3 = [] then ''http://httpbin.org/image/jpeg''
                                    else strip a3))]),
           (''weather'',
              JObj [(''latitude'', JStr (if strip a5 = [] then ''47.6062'' else strip a5)),
                    (''longitude'', JStr (if strip a6 = [] then ''-122.3321'' else strip a6)),
                    (''city'', JStr (if strip a4 = [] then ''Seattle'' else strip a4)),
                    (''units'', JStr (if strip a7 = [] then ''fahrenheit'' else strip a7))]),
           (''update'', JObj [(''refreshMs'', JInt (h * 60 * 60 * 1000))]),
           (''display'', JObj [(''width'', JInt 1200), (''sidebarWidthPct'', JInt 20)]),
           (''hardware'', JObj [(''wakeButtonPin'', JInt 36)])]),
        \<lparr>stdin = rest,
         stdout = out @
           [''=== Inkplate Smart Display Configuration Setup ==='' @ [CHR 0x0A],
            [CHR 0x0A],
            ''WiFi Configuration:'' @ [CHR 0x0A],
            ''WiFi SSID: ''] @
           replicate (length bs1) ''WiFi SSID (required): '' @
           [''WiFi Password: ''] @
           replicate (length bs2) ''WiFi Password (required): '' @
           [[CHR 0x0A],
            ''Image Server Configuration:'' @ [CHR 0x0A],
            ''Image URL (JPEG) [http://httpbin.org/image/jpeg]: '',
            [CHR 0x0A],
            ''Weather Configuration:'' @ [CHR 0x0A],
            ''(You can find coordinates at https://www.latlong.net/)'' @ [CHR 0x0A],
            ''City name [Seattle]: '',
            ''Latitude [47.6062]: '',
            ''Longitude [-122.3321]: '',
            ''Temperature units (fahrenheit/celsius) [fahrenheit]: '',
            [CHR 0x0A],
            ''Update Configuration:'' @ [CHR 0x0A],
            ''Refresh interval (hours) [24]: '',
            [CHR 0x0A]],
         fs = f\<rparr>)"
proof -
  have h': "py_int (if strip a8 \<noteq> [] then strip a8 else ''24'') = Inr h"
    using assms(5) by (simp split: if_splits)
  show ?thesis
    unfolding main_collect_run [OF assms(1-4)] h' sum.case
    by simp
qed

theorem prompts_in_fixed_order_with_defaults_witness:
  "main_collect
     \<lparr>stdin = ['''', ''HomeNet'', ''secret123'', '''', '' Paris '', '''', '''', '''', ''1'',
               ''next''],
      stdout = [], fs = Map.empty\<rparr>
     = (Inr (JObj
          [(''wifi'', JObj [(''ssid'', JStr ''HomeNet''), (''password'', JStr ''secret123'')]),
           (''server'', JObj [(''url'', JStr ''http://httpbin.org/image/jpeg'')]),
           (''weather'',
              JObj [(''latitude'', JStr ''47.6062''),
                    (''longitude'', JStr ''-122.3321''),
                    (''city'', JStr ''Paris''),
                    (''units'', JStr ''fahrenheit'')]),
           (''update'', JObj [(''refreshMs'', JInt 3600000)]),
           (''display'', JObj [(''width'', JInt 1200), (''sidebarWidthPct'', JInt 20)]),
           (''hardware'', JObj [(''wakeButtonPin'', JInt 36)])]),
        \<lparr>stdin = [''next''],
         stdout =
           [''=== Inkplate Smart Display Configuration Setup ==='' @ [CHR 0x0A],
            [CHR 0x0A],
            ''WiFi Configuration:'' @ [CHR 0x0A],
            ''WiFi SSID: '',
            ''WiFi SSID (required): '',
            ''WiFi Password: '',
            [CHR 0x0A],
            ''Image Server Configuration:'' @ [CHR 0x0A],
            ''Image URL (JPEG) [http://httpbin.org/image/jpeg]: '',
            [CHR 0x0A],
            ''Weather Configuration:'' @ [CHR 0x0A],
            ''(You can find coordinates at https://www.latlong.net/)'' @ [CHR 0x0A],
            ''City name [Seattle]: '',
            ''Latitude [47.6062]: '',
            ''Longitude [-122.3321]: '',
            ''Temperature units (fahrenheit/celsius) [fahrenheit]: '',
            [CHR 0x0A],
            ''Update Configuration:'' @ [CHR 0x0A],
            ''Refresh interval (hours) [24]: '',
            [CHR 0x0A]],
         fs = Map.empty\<rparr>)"
proof -
  have e: "strip '''' = []" by (simp add: strip_def)
  have b1: "\<forall>b \<in> set ['''']. strip b = []" by (simp add: e)
  have b2: "\<forall>b \<in> set ([] :: string list). strip b = []" by simp
  have s1: "strip ''HomeNet'' = ''HomeNet''" and s2: "strip ''secret123'' = ''secret123''"
    and s4: "strip '' Paris '' = ''Paris''" and s8: "strip ''1'' = ''1''"
    by (simp_all add: strip_def isspace_def)
  have l1: "strip ''HomeNet'' \<noteq> []" by (simp add: s1)
  have l2: "strip ''secret123'' \<noteq> []" by (simp add: s2)
  have h: "py_int (if strip ''1'' = [] then ''24'' else strip ''1'') = Inr 1"
    by (simp add: s8 py_int_def int_space_def digits_def digit_val_def int_max_str_digits_def)
  show ?thesis
    using prompts_in_fixed_order_with_defaults
      [OF b1 l1 b2 l2 h, of "''''" "'' Paris ''" "''''" "''''" "''''" "[''next'']" "[]" Map.empty]
    by (simp add: e s1 s2 s4)
qed

text \<open>
  C1. When the refresh-hours string (the stripped eighth answer, or \<open>24\<close> when that is
  empty) is not accepted by \<open>int\<close>, the run ends in \<open>ValueError\<close> and the file system
  is what it was before the run: no directory has been made, and
  \<open>data/config.json\<close> has been neither created nor changed.
\<close>

theorem bad_refresh_hours_writes_nothing:
  assumes "\<forall>b \<in> set bs1. strip b = []" and "strip l1 \<noteq> []"
      and "\<forall>b \<in> set bs2. strip b = []" and "strip l2 \<noteq> []"
      and "py_int (if strip a8 = [] then ''24'' else strip a8) = Inl e"
  shows "\<exists>out'.
           main
             \<lparr>stdin = bs1 @ l1 # bs2 @ l2 # a3 # a4 # a5 # a6 # a7 # a8 # rest,
              stdout = out, fs = f\<rparr>
           = (Inl ValueError, \<lparr>stdin = rest, stdout = out', fs = f\<rparr>)"
proof -
  have h': "py_int (if strip a8 \<noteq> [] then strip a8 else ''24'') = Inl e"
    using assms(5) by (simp split: if_splits)
  have e: "e = ValueError" using h' by (rule py_int_error)
  show ?thesis
    unfolding main_eq main_collect_run [OF assms(1-4)] h' sum.case e
    by simp
qed

theorem bad_refresh_hours_writes_nothing_witness:
  "\<exists>out'.
     main
       \<lparr>stdin = [''HomeNet'', ''secret123'', '''', '''', '''', '''', '''', ''abc''],
        stdout = [],
        fs = [''data'' \<mapsto> Dir, ''data/config.json'' \<mapsto> File ''old'']\<rparr>
     = (Inl ValueError,
        \<lparr>stdin = [], stdout = out',
         fs = [''data'' \<mapsto> Dir, ''data/config.json'' \<mapsto> File ''old'']\<rparr>)"
proof -
  have b: "\<forall>b \<in> set ([] :: string list). strip b = []" by simp
  have l1: "strip ''HomeNet'' \<noteq> []" and l2: "strip ''secret123'' \<noteq> []"
    by (simp_all add: strip_def isspace_def)
  have h: "py_int (if strip ''abc'' = [] then ''24'' else strip ''abc'') = Inl ValueError"
    by (simp add: strip_def isspace_def py_int_def int_space_def digits_def digit_val_def int_max_str_digits_def)
  show ?thesis
    using bad_refresh_hours_writes_nothing
      [OF b l1 b l2 h, of "''''" "''''" "''''" "''''" "''''" "[]" "[]"
        "[''data'' \<mapsto> Dir, ''data/config.json'' \<mapsto> File ''old'']"]
    by simp
qed

text \<open>
  C2, as amended. When the refresh-hours string (the stripped eighth answer, or \<open>24\<close>
  when that is empty) is accepted by \<open>int\<close> with value \<open>h\<close> and the product
  \<open>h * 3600000\<close> has no more digits than the interpreter converts to text (4300), the
  configuration built by the run holds the product under \<open>update.refreshMs\<close>, and the
  run, on a file system where \<open>data\<close> is not a file and \<open>data/config.json\<close> is not a
  directory, ends normally with the file laid out as the specification says, the
  decimal text of the product standing after \<^verbatim>\<open>"refreshMs":\<close>; read back by \<open>int\<close>,
  that text is the product.
\<close>

theorem refresh_ms_is_hours_times_3600000:
  assumes "\<forall>b \<in> set bs1. strip b = []" and "strip l1 \<noteq> []"
      and "\<forall>b \<in> set bs2. strip b = []" and "strip l2 \<noteq> []"
      and "py_int (if strip a8 = [] then ''24'' else strip a8) = Inr h"
      and "\<bar>h * 3600000\<bar> < 10 ^ int_max_str_digits"
      and "f ''data'' = None \<or> f ''data'' = Some Dir"
      and "f ''data/config.json'' \<noteq> Some Dir"
  shows "\<exists>cfg w1 w'.
           main_collect
             \<lparr>stdin = bs1 @ l1 # bs2 @ l2 # a3 # a4 # a5 # a6 # a7 # a8 # rest,
              stdout = out, fs = f\<rparr> = (Inr cfg, w1)
         \<and> main
             \<lparr>stdin = bs1 @ l1 # bs2 @ l2 # a3 # a4 # a5 # a6 # a7 # a8 # rest,
              stdout = out, fs = f\<rparr> = (Inr (), w')
         \<and> lookup cfg [''update'', ''refreshMs''] = Some (JInt (h * 3600000))
         \<and> fs w' ''data/config.json''
             = Some (File
                 (spec_file_prefix (strip l1) (strip l2)
                    (if strip a3 = [] then ''http://httpbin.org/image/jpeg'' else strip a3)
                    (if strip a5 = [] then ''47.6062'' else strip a5)
                    (if strip a6 = [] then ''-122.3321'' else strip a6)
                    (if strip a4 = [] then ''Seattle'' else strip a4)
                    (if strip a7 = [] then ''fahrenheit'' else strip a7)
                  @ int_repr (h * 3600000) @ spec_file_suffix))
         \<and> py_int (int_repr (h * 3600000)) = Inr (h * 3600000)"
proof -
  have h': "py_int (if strip a8 \<noteq> [] then strip a8 else ''24'') = Inr h"
    using assms(5) by (simp split: if_splits)
  have t: "int_str (h * 3600000) = Inr (int_repr (h * 3600000))"
    using assms(6) by (simp only: int_str_iff if_True)
  have rt: "py_int (int_repr (h * 3600000)) = Inr (h * 3600000)"
    using t by (rule int_str_roundtrip)
  from main_run [OF assms(1-4) h' t assms(7,8), of a3 a4 a5 a6 a7 rest out]
  obtain cfg w1 w' where r:
    "main_collect
       \<lparr>stdin = bs1 @ l1 # bs2 @ l2 # a3 # a4 # a5 # a6 # a7 # a8 # rest,
        stdout = out, fs = f\<rparr> = (Inr cfg, w1)"
    "main
       \<lparr>stdin = bs1 @ l1 # bs2 @ l2 # a3 # a4 # a5 # a6 # a7 # a8 # rest,
        stdout = out, fs = f\<rparr> = (Inr (), w')"
    "fs w' = f(''data'' \<mapsto> Dir, ''data/config.json'' \<mapsto> File (json_dumps cfg))"
    "json_dumps cfg
       = spec_file_prefix (strip l1) (strip l2)
           (if strip a3 = [] then ''http://httpbin.org/image/jpeg'' else strip a3)
           (if strip a5 = [] then ''47.6062'' else strip a5)
           (if strip a6 = [] then ''-122.3321'' else strip a6)
           (if strip a4 = [] then ''Seattle'' else strip a4)
           (if strip a7 = [] then ''fahrenheit'' else strip a7)
         @ int_repr (h * 3600000) @ spec_file_suffix"
    "lookup cfg [''update'', ''refreshMs''] = Some (JInt (h * 3600000))"
    by blast
  have "fs w' ''data/config.json'' = Some (File (json_dumps cfg))"
    by (simp add: r(3))
  then have fl: "fs w' ''data/config.json''
             = Some (File
                 (spec_file_prefix (strip l1) (strip l2)
                    (if strip a3 = [] then ''http://httpbin.org/image/jpeg'' else strip a3)
                    (if strip a5 = [] then ''47.6062'' else strip a5)
                    (if strip a6 = [] then ''-122.3321'' else strip a6)
                    (if strip a4 = [] then ''Seattle'' else strip a4)
                    (if strip a7 = [] then ''fahrenheit'' else strip a7)
                  @ int_repr (h * 3600000) @ spec_file_suffix))"
    by (simp only: r(4))
  from r(1,2,5) fl rt show ?thesis by blast
qed

text \<open>The answers \<open>1\<close> and \<open>24\<close>, with the text of the file written in each run.\<close>

theorem refresh_ms_is_hours_times_3600000_witness:
  "(\<exists>cfg w1 w'.
      main_collect
        \<lparr>stdin = [''HomeNet'', ''secret123'', '''', '''', '''', '''', '''', ''1''],
         stdout = [], fs = Map.empty\<rparr> = (Inr cfg, w1)
    \<and> main
        \<lparr>stdin = [''HomeNet'', ''secret123'', '''', '''', '''', '''', '''', ''1''],
         stdout = [], fs = Map.empty\<rparr> = (Inr (), w')
    \<and> lookup cfg [''update'', ''refreshMs''] = Some (JInt 3600000)
    \<and> fs w' ''data/config.json'' = Some (File
          (''{\<newline>'' @
           ''  \"wifi\": {\<newline>'' @
           ''    \"ssid\": \"HomeNet\",\<newline>'' @
           ''    \"password\": \"secret123\"\<newline>'' @
           ''  },\<newline>'' @
           ''  \"server\": {\<newline>'' @
           ''    \"url\": \"http://httpbin.org/image/jpeg\"\<newline>'' @
           ''  },\<newline>'' @
           ''  \"weather\": {\<newline>'' @
           ''    \"latitude\": \"47.6062\",\<newline>'' @
           ''    \"longitude\": \"-122.3321\",\<newline>'' @
           ''    \"city\": \"Seattle\",\<newline>'' @
           ''    \"units\": \"fahrenheit\"\<newline>'' @
           ''  },\<newline>'' @
           ''  \"update\": {\<newline>'' @
           ''    \"refreshMs\": 3600000\<newline>'' @
           ''  },\<newline>'' @
           ''  \"display\": {\<newline>'' @
           ''    \"width\": 1200,\<newline>'' @
           ''    \"sidebarWidthPct\": 20\<newline>'' @
           ''  },\<newline>'' @
           ''  \"hardware\": {\<newline>'' @
           ''    \"wakeButtonPin\": 36\<newline>'' @
           ''  }\<newline>'' @
           ''}'')))
   \<and> (\<exists>cfg w1 w'.
      main_collect
        \<lparr>stdin = [''HomeNet'', ''secret123'', '''', '''', '''', '''', '''', ''24''],
         stdout = [], fs = Map.empty\<rparr> = (Inr cfg, w1)
    \<and> main
        \<lparr>stdin = [''HomeNet'', ''secret123'', '''', '''', '''', '''', '''', ''24''],
         stdout = [], fs = Map.empty\<rparr> = (Inr (), w')
    \<and> lookup cfg [''update'', ''refreshMs''] = Some (JInt 86400000)
    \<and> fs w' ''data/config.json'' = Some (File
          (''{\<newline>'' @
           ''  \"wifi\": {\<newline>'' @
           ''    \"ssid\": \"HomeNet\",\<newline>'' @
           ''    \"password\": \"secret123\"\<newline>'' @
           ''  },\<newline>'' @
           ''  \"server\": {\<newline>'' @
           ''    \"url\": \"http://httpbin.org/image/jpeg\"\<newline>'' @
           ''  },\<newline>'' @
           ''  \"weather\": {\<newline>'' @
           ''    \"latitude\": \"47.6062\",\<newline>'' @
           ''    \"longitude\": \"-122.3321\",\<newline>'' @
           ''    \"city\": \"Seattle\",\<newline>'' @
           ''    \"units\": \"fahrenheit\"\<newline>'' @
           ''  },\<newline>'' @
           ''  \"update\": {\<newline>'' @
           ''    \"refreshMs\": 86400000\<newline>'' @
           ''  },\<newline>'' @
           ''  \"display\": {\<newline>'' @
           ''    \"width\": 1200,\<newline>'' @
           ''    \"sidebarWidthPct\": 20\<newline>'' @
           ''  },\<newline>'' @
           ''  \"hardware\": {\<newline>'' @
           ''    \"wakeButtonPin\": 36\<newline>'' @
           ''  }\<newline>'' @
           ''}'')))"
proof -
  have b: "\<forall>b \<in> set ([] :: string list). strip b = []" by simp
  have l1: "strip ''HomeNet'' \<noteq> []" and l2: "strip ''secret123'' \<noteq> []"
    by (simp_all add: strip_def isspace_def)
  have h1: "py_int (if strip ''1'' = [] then ''24'' else strip ''1'') = Inr 1"
    by (simp add: strip_def isspace_def py_int_def int_space_def digits_def digit_val_def
          int_max_str_digits_def)
  have h24: "py_int (if strip ''24'' = [] then ''24'' else strip ''24'') = Inr 24"
    by (simp add: strip_def isspace_def py_int_def int_space_def digits_def digit_val_def
          int_max_str_digits_def)
  have p1: "\<bar>1 * 3600000\<bar> < (10::int) ^ int_max_str_digits"
    by (rule small_product) simp
  have p24: "\<bar>24 * 3600000\<bar> < (10::int) ^ int_max_str_digits"
    by (rule small_product) simp
  have d: "Map.empty ''data'' = None \<or> Map.empty ''data'' = Some Dir" by simp
  have c: "Map.empty ''data/config.json'' \<noteq> Some Dir" by simp
  have x1: "(1::int) * 3600000 = 3600000" and x24: "(24::int) * 3600000 = 86400000"
    by simp_all
  have 1: "\<exists>cfg w1 w'.
      main_collect
        \<lparr>stdin = [''HomeNet'', ''secret123'', '''', '''', '''', '''', '''', ''1''],
         stdout = [], fs = Map.empty\<rparr> = (Inr cfg, w1)
    \<and> main
        \<lparr>stdin = [''HomeNet'', ''secret123'', '''', '''', '''', '''', '''', ''1''],
         stdout = [], fs = Map.empty\<rparr> = (Inr (), w')
    \<and> lookup cfg [''update'', ''refreshMs''] = Some (JInt 3600000)
    \<and> fs w' ''data/config.json'' = Some (File
          (''{\<newline>'' @
           ''  \"wifi\": {\<newline>'' @
           ''    \"ssid\": \"HomeNet\",\<newline>'' @
           ''    \"password\": \"secret123\"\<newline>'' @
           ''  },\<newline>'' @
           ''  \"server\": {\<newline>'' @
           ''    \"url\": \"http://httpbin.org/image/jpeg\"\<newline>'' @
           ''  },\<newline>'' @
           ''  \"weather\": {\<newline>'' @
           ''    \"latitude\": \"47.6062\",\<newline>'' @
           ''    \"longitude\": \"-122.3321\",\<newline>'' @
           ''    \"city\": \"Seattle\",\<newline>'' @
           ''    \"units\": \"fahrenheit\"\<newline>'' @
           ''  },\<newline>'' @
           ''  \"update\": {\<newline>'' @
           ''    \"refreshMs\": 3600000\<newline>'' @
           ''  },\<newline>'' @
           ''  \"display\": {\<newline>'' @
           ''    \"width\": 1200,\<newline>'' @
           ''    \"sidebarWidthPct\": 20\<newline>'' @
           ''  },\<newline>'' @
           ''  \"hardware\": {\<newline>'' @
           ''    \"wakeButtonPin\": 36\<newline>'' @
           ''  }\<newline>'' @
           ''}''))"
    using refresh_ms_is_hours_times_3600000
      [OF b l1 b l2 h1 p1 d c, of "''''" "''''" "''''" "''''" "''''" "[]" "[]",
        unfolded append_Nil homenet_answers homenet_prefix x1 int_repr_hour spec_file_suffix_def]
    apply (elim exE conjE)
    subgoal for cfg w1 w'
      apply (rule exI [of _ cfg], rule exI [of _ w1], rule exI [of _ w'])
      apply simp
      done
    done
  have 2: "\<exists>cfg w1 w'.
      main_collect
        \<lparr>stdin = [''HomeNet'', ''secret123'', '''', '''', '''', '''', '''', ''24''],
         stdout = [], fs = Map.empty\<rparr> = (Inr cfg, w1)
    \<and> main
        \<lparr>stdin = [''HomeNet'', ''secret123'', '''', '''', '''', '''', '''', ''24''],
         stdout = [], fs = Map.empty\<rparr> = (Inr (), w')
    \<and> lookup cfg [''update'', ''refreshMs''] = Some (JInt 86400000)
    \<and> fs w' ''data/config.json'' = Some (File
          (''{\<newline>'' @
           ''  \"wifi\": {\<newline>'' @
           ''    \"ssid\": \"HomeNet\",\<newline>'' @
           ''    \"password\": \"secret123\"\<newline>'' @
           ''  },\<newline>'' @
           ''  \"server\": {\<newline>'' @
           ''    \"url\": \"http://httpbin.org/image/jpeg\"\<newline>'' @
           ''  },\<newline>'' @
           ''  \"weather\": {\<newline>'' @
           ''    \"latitude\": \"47.6062\",\<newline>'' @
           ''    \"longitude\": \"-122.3321\",\<newline>'' @
           ''    \"city\": \"Seattle\",\<newline>'' @
           ''    \"units\": \"fahrenheit\"\<newline>'' @
           ''  },\<newline>'' @
           ''  \"update\": {\<newline>'' @
           ''    \"refreshMs\": 86400000\<newline>'' @
           ''  },\<newline>'' @
           ''  \"display\": {\<newline>'' @
           ''    \"width\": 1200,\<newline>'' @
           ''    \"sidebarWidthPct\": 20\<newline>'' @
           ''  },\<newline>'' @
           ''  \"hardware\": {\<newline>'' @
           ''    \"wakeButtonPin\": 36\<newline>'' @
           ''  }\<newline>'' @
           ''}''))"
    using refresh_ms_is_hours_times_3600000
      [OF b l1 b l2 h24 p24 d c, of "''''" "''''" "''''" "''''" "''''" "[]" "[]",
        unfolded append_Nil homenet_answers homenet_prefix x24 int_repr_hour spec_file_suffix_def]
    apply (elim exE conjE)
    subgoal for cfg w1 w'
      apply (rule exI [of _ cfg], rule exI [of _ w1], rule exI [of _ w'])
      apply simp
      done
    done
  from 1 2 show ?thesis by (rule conjI)
qed

text \<open>
  The claim as written, for every string that \<open>int\<close> accepts: the answer of 4300 nines
  is accepted, but its product with 3600000 has 4307 digits, so the encoder raises
  \<open>ValueError\<close> when it comes to the number. The run ends in that error, and the file,
  already opened, holds the text up to \<^verbatim>\<open>"refreshMs":\<close> and no number.
\<close>

theorem refresh_ms_beyond_digit_limit_counterexample:
  "py_int (replicate 4300 (CHR ''9'')) = Inr (10 ^ 4300 - 1)
   \<and> fst (main
        \<lparr>stdin = [''HomeNet'', ''secret123'', '''', '''', '''', '''', '''',
                  replicate 4300 (CHR ''9'')],
         stdout = [], fs = Map.empty\<rparr>) = Inl ValueError
   \<and> fs (snd (main
        \<lparr>stdin = [''HomeNet'', ''secret123'', '''', '''', '''', '''', '''',
                  replicate 4300 (CHR ''9'')],
         stdout = [], fs = Map.empty\<rparr>)) ''data/config.json''
       = Some (File
          (''{\<newline>'' @
           ''  \"wifi\": {\<newline>'' @
           ''    \"ssid\": \"HomeNet\",\<newline>'' @
           ''    \"password\": \"secret123\"\<newline>'' @
           ''  },\<newline>'' @
           ''  \"server\": {\<newline>'' @
           ''    \"url\": \"http://httpbin.org/image/jpeg\"\<newline>'' @
           ''  },\<newline>'' @
           ''  \"weather\": {\<newline>'' @
           ''    \"latitude\": \"47.6062\",\<newline>'' @
           ''    \"longitude\": \"-122.3321\",\<newline>'' @
           ''    \"city\": \"Seattle\",\<newline>'' @
           ''    \"units\": \"fahrenheit\"\<newline>'' @
           ''  },\<newline>'' @
           ''  \"update\": {\<newline>'' @
           ''    \"refreshMs\": ''))"
proof -
  have k: "0 < int_max_str_digits" "int_max_str_digits \<le> int_max_str_digits"
    by (simp_all add: int_max_str_digits_def)
  have sg: "([] :: string) = [] \<or> [] = ''+'' \<or> [] = ''-''" by simp
  have d: "Map.empty ''data'' = None \<or> Map.empty ''data'' = Some Dir" by simp
  have c: "Map.empty ''data/config.json'' \<noteq> Some Dir" by simp
  note n0 = nines_run(1) [OF k limit_exceeded sg d c,
      unfolded append_Nil int_max_str_digits_def]
  have n1: "py_int (replicate 4300 (CHR ''9'')) = Inr (10 ^ 4300 - 1)"
    using n0 by (simp only: list.distinct if_False)
  note n2 = nines_run(2) [OF k limit_exceeded sg d c, of "[]",
      unfolded append_Nil int_max_str_digits_def]
  from n2 obtain w' where m: "main
        \<lparr>stdin = [''HomeNet'', ''secret123'', '''', '''', '''', '''', '''',
                  replicate 4300 (CHR ''9'')],
         stdout = [], fs = Map.empty\<rparr> = (Inl ValueError, w')"
    and f: "fs w' = [''data'' \<mapsto> Dir,
                      ''data/config.json'' \<mapsto> File
                        (''{\<newline>'' @
           ''  \"wifi\": {\<newline>'' @
           ''    \"ssid\": \"HomeNet\",\<newline>'' @
           ''    \"password\": \"secret123\"\<newline>'' @
           ''  },\<newline>'' @
           ''  \"server\": {\<newline>'' @
           ''    \"url\": \"http://httpbin.org/image/jpeg\"\<newline>'' @
           ''  },\<newline>'' @
           ''  \"weather\": {\<newline>'' @
           ''    \"latitude\": \"47.6062\",\<newline>'' @
           ''    \"longitude\": \"-122.3321\",\<newline>'' @
           ''    \"city\": \"Seattle\",\<newline>'' @
           ''    \"units\": \"fahrenheit\"\<newline>'' @
           ''  },\<newline>'' @
           ''  \"update\": {\<newline>'' @
           ''    \"refreshMs\": '')]"
    by blast
  have fl: "fs w' ''data/config.json'' = Some (File
          (''{\<newline>'' @
           ''  \"wifi\": {\<newline>'' @
           ''    \"ssid\": \"HomeNet\",\<newline>'' @
           ''    \"password\": \"secret123\"\<newline>'' @
           ''  },\<newline>'' @
           ''  \"server\": {\<newline>'' @
           ''    \"url\": \"http://httpbin.org/image/jpeg\"\<newline>'' @
           ''  },\<newline>'' @
           ''  \"weather\": {\<newline>'' @
           ''    \"latitude\": \"47.6062\",\<newline>'' @
           ''    \"longitude\": \"-122.3321\",\<newline>'' @
           ''    \"city\": \"Seattle\",\<newline>'' @
           ''    \"units\": \"fahrenheit\"\<newline>'' @
           ''  },\<newline>'' @
           ''  \"update\": {\<newline>'' @
           ''    \"refreshMs\": ''))"
    unfolding f by (rule fun_upd_same)
  show ?thesis
    unfolding m fst_conv snd_conv using n1 fl by (intro conjI) (rule refl | assumption)+
qed

text \<open>
  C10, as amended. The refresh-hours answer is not range-checked. An answer made of
  whitespace, an optional sign, a digit string of value \<open>n\<close> and whitespace is accepted
  whatever its sign: when the product \<open>n * 3600000\<close> has no more digits than the
  interpreter converts to text (4300), the run ends normally and writes the file with
  the decimal text of \<open>n * 3600000\<close>, or of \<open>- n * 3600000\<close> under a minus sign,
  after \<^verbatim>\<open>"refreshMs":\<close>, so negative values and zero are stored as they come; read
  back by \<open>int\<close>, that text is the signed product.
\<close>

theorem refresh_hours_not_range_checked:
  assumes "\<forall>b \<in> set bs1. strip b = []" and "strip l1 \<noteq> []"
      and "\<forall>b \<in> set bs2. strip b = []" and "strip l2 \<noteq> []"
      and "\<forall>c \<in> set ws1. isspace c" and "\<forall>c \<in> set ws2. isspace c"
      and "digits ds = Some n"
      and "sg = [] \<or> sg = ''+'' \<or> sg = ''-''"
      and "a8 = ws1 @ sg @ ds @ ws2"
      and "int n * 3600000 < 10 ^ int_max_str_digits"
      and "f ''data'' = None \<or> f ''data'' = Some Dir"
      and "f ''data/config.json'' \<noteq> Some Dir"
  shows "\<exists>cfg w1 w'.
           main_collect
             \<lparr>stdin = bs1 @ l1 # bs2 @ l2 # a3 # a4 # a5 # a6 # a7 # a8 # rest,
              stdout = out, fs = f\<rparr> = (Inr cfg, w1)
         \<and> main
             \<lparr>stdin = bs1 @ l1 # bs2 @ l2 # a3 # a4 # a5 # a6 # a7 # a8 # rest,
              stdout = out, fs = f\<rparr> = (Inr (), w')
         \<and> lookup cfg [''update'', ''refreshMs'']
             = Some (JInt ((if sg = ''-'' then - int n else int n) * 3600000))
         \<and> fs w' ''data/config.json''
             = Some (File
                 (spec_file_prefix (strip l1) (strip l2)
                    (if strip a3 = [] then ''http://httpbin.org/image/jpeg'' else strip a3)
                    (if strip a5 = [] then ''47.6062'' else strip a5)
                    (if strip a6 = [] then ''-122.3321'' else strip a6)
                    (if strip a4 = [] then ''Seattle'' else strip a4)
                    (if strip a7 = [] then ''fahrenheit'' else strip a7)
                  @ int_repr ((if sg = ''-'' then - int n else int n) * 3600000)
                  @ spec_file_suffix))
         \<and> py_int (int_repr ((if sg = ''-'' then - int n else int n) * 3600000))
             = Inr ((if sg = ''-'' then - int n else int n) * 3600000)"
proof -
  let ?v = "if sg = ''-'' then - int n else int n"
  from digits_ends [OF assms(7)] obtain hv lv where ne: "ds \<noteq> []"
    and hd: "digit_val (hd ds) = Some hv" and la: "digit_val (last ds) = Some lv"
    by blast
  have sp: "\<not> isspace (CHR ''+'')" "\<not> isspace (CHR ''-'')"
    by (simp_all add: isspace_def)
  have body: "sg @ ds \<noteq> []" "\<not> isspace (hd (sg @ ds))" "\<not> isspace (last (sg @ ds))"
    using ne assms(8) digit_not_space(1) [OF hd] digit_not_space(1) [OF la] sp
    by auto
  have "strip (ws1 @ (sg @ ds) @ ws2) = sg @ ds"
    using assms(5,6) body by (rule strip_surround)
  then have s: "strip a8 = sg @ ds" by (simp add: assms(9))
  have v: "py_int (sg @ ds) = Inr ?v"
    using assms(8) py_int_signed [OF assms(7)] by auto
  have h': "py_int (if strip a8 \<noteq> [] then strip a8 else ''24'') = Inr ?v"
    using s body(1) v by simp
  have "\<bar>?v * 3600000\<bar> = int n * 3600000" by (simp add: abs_mult)
  with assms(10) have "\<bar>?v * 3600000\<bar> < 10 ^ int_max_str_digits" by simp
  then have t: "int_str (?v * 3600000) = Inr (int_repr (?v * 3600000))"
    by (simp only: int_str_iff if_True)
  have rt: "py_int (int_repr (?v * 3600000)) = Inr (?v * 3600000)"
    using t by (rule int_str_roundtrip)
  from main_run [OF assms(1-4) h' t assms(11,12), of a3 a4 a5 a6 a7 rest out]
  obtain cfg w1 w' where r:
    "main_collect
       \<lparr>stdin = bs1 @ l1 # bs2 @ l2 # a3 # a4 # a5 # a6 # a7 # a8 # rest,
        stdout = out, fs = f\<rparr> = (Inr cfg, w1)"
    "main
       \<lparr>stdin = bs1 @ l1 # bs2 @ l2 # a3 # a4 # a5 # a6 # a7 # a8 # rest,
        stdout = out, fs = f\<rparr> = (Inr (), w')"
    "fs w' = f(''data'' \<mapsto> Dir, ''data/config.json'' \<mapsto> File (json_dumps cfg))"
    "json_dumps cfg
       = spec_file_prefix (strip l1) (strip l2)
           (if strip a3 = [] then ''http://httpbin.org/image/jpeg'' else strip a3)
           (if strip a5 = [] then ''47.6062'' else strip a5)
           (if strip a6 = [] then ''-122.3321'' else strip a6)
           (if strip a4 = [] then ''Seattle'' else strip a4)
           (if strip a7 = [] then ''fahrenheit'' else strip a7)
         @ int_repr (?v * 3600000) @ spec_file_suffix"
    "lookup cfg [''update'', ''refreshMs''] = Some (JInt (?v * 3600000))"
    by blast
  have "fs w' ''data/config.json'' = Some (File (json_dumps cfg))"
    by (simp add: r(3))
  then have fl: "fs w' ''data/config.json''
             = Some (File
                 (spec_file_prefix (strip l1) (strip l2)
                    (if strip a3 = [] then ''http://httpbin.org/image/jpeg'' else strip a3)
                    (if strip a5 = [] then ''47.6062'' else strip a5)
                    (if strip a6 = [] then ''-122.3321'' else strip a6)
                    (if strip a4 = [] then ''Seattle'' else strip a4)
                    (if strip a7 = [] then ''fahrenheit'' else strip a7)
                  @ int_repr (?v * 3600000) @ spec_file_suffix))"
    by (simp only: r(4))
  from r(1,2,5) fl rt show ?thesis by blast
qed

text \<open>The answer \<open>-1\<close> between two blanks, with the text of the file written.\<close>

theorem refresh_hours_not_range_checked_witness:
  "\<exists>cfg w1 w'.
      main_collect
        \<lparr>stdin = [''HomeNet'', ''secret123'', '''', '''', '''', '''', '''', '' -1 ''],
         stdout = [], fs = Map.empty\<rparr> = (Inr cfg, w1)
    \<and> main
        \<lparr>stdin = [''HomeNet'', ''secret123'', '''', '''', '''', '''', '''', '' -1 ''],
         stdout = [], fs = Map.empty\<rparr> = (Inr (), w')
    \<and> lookup cfg [''update'', ''refreshMs''] = Some (JInt (- 3600000))
    \<and> fs w' ''data/config.json'' = Some (File
          (''{\<newline>'' @
           ''  \"wifi\": {\<newline>'' @
           ''    \"ssid\": \"HomeNet\",\<newline>'' @
           ''    \"password\": \"secret123\"\<newline>'' @
           ''  },\<newline>'' @
           ''  \"server\": {\<newline>'' @
           ''    \"url\": \"http://httpbin.org/image/jpeg\"\<newline>'' @
           ''  },\<newline>'' @
           ''  \"weather\": {\<newline>'' @
           ''    \"latitude\": \"47.6062\",\<newline>'' @
           ''    \"longitude\": \"-122.3321\",\<newline>'' @
           ''    \"city\": \"Seattle\",\<newline>'' @
           ''    \"units\": \"fahrenheit\"\<newline>'' @
           ''  },\<newline>'' @
           ''  \"update\": {\<newline>'' @
           ''    \"refreshMs\": -3600000\<newline>'' @
           ''  },\<newline>'' @
           ''  \"display\": {\<newline>'' @
           ''    \"width\": 1200,\<newline>'' @
           ''    \"sidebarWidthPct\": 20\<newline>'' @
           ''  },\<newline>'' @
           ''  \"hardware\": {\<newline>'' @
           ''    \"wakeButtonPin\": 36\<newline>'' @
           ''  }\<newline>'' @
           ''}''))"
proof -
  have b: "\<forall>b \<in> set ([] :: string list). strip b = []" by simp
  have l1: "strip ''HomeNet'' \<noteq> []" and l2: "strip ''secret123'' \<noteq> []"
    by (simp_all add: strip_def isspace_def)
  have ws: "\<forall>c \<in> set '' ''. isspace c" by (simp add: isspace_def)
  have ds: "digits ''1'' = Some 1"
    by (simp add: digits_def digit_val_def int_max_str_digits_def)
  have sgc: "''-'' = [] \<or> ''-'' = ''+'' \<or> ''-'' = ''-''" by simp
  have a8: "'' -1 '' = '' '' @ ''-'' @ ''1'' @ '' ''" by simp
  have "\<bar>int 1 * 3600000\<bar> < 10 ^ int_max_str_digits"
    by (rule small_product) simp
  then have p: "int 1 * 3600000 < 10 ^ int_max_str_digits" by simp
  have d: "Map.empty ''data'' = None \<or> Map.empty ''data'' = Some Dir" by simp
  have c: "Map.empty ''data/config.json'' \<noteq> Some Dir" by simp
  have x: "(if ''-'' = ''-'' then - int 1 else int 1) * 3600000 = - 3600000" by simp
  show ?thesis
    using refresh_hours_not_range_checked
      [OF b l1 b l2 ws ws ds sgc a8 p d c, of "''''" "''''" "''''" "''''" "''''" "[]" "[]",
        unfolded append_Nil homenet_answers homenet_prefix x int_repr_hour
          spec_file_suffix_def]
    apply (elim exE conjE)
    subgoal for cfg w1 w'
      apply (rule exI [of _ cfg], rule exI [of _ w1], rule exI [of _ w'])
      apply simp
      done
    done
qed

text \<open>
  The claim as written, for every string that parses as a negative integer: a minus sign
  and 4300 nines are accepted by \<open>int\<close>, but the product with 3600000 has 4307 digits,
  so the encoder raises \<open>ValueError\<close> at the number: the run does not complete, and the
  file holds the text up to \<^verbatim>\<open>"refreshMs":\<close> and no product.
\<close>

theorem negative_hours_beyond_digit_limit_counterexample:
  "py_int (CHR ''-'' # replicate 4300 (CHR ''9'')) = Inr (- (10 ^ 4300 - 1))
   \<and> fst (main
        \<lparr>stdin = [''HomeNet'', ''secret123'', '''', '''', '''', '''', '''',
                  CHR ''-'' # replicate 4300 (CHR ''9'')],
         stdout = [], fs = Map.empty\<rparr>) = Inl ValueError
   \<and> fs (snd (main
        \<lparr>stdin = [''HomeNet'', ''secret123'', '''', '''', '''', '''', '''',
                  CHR ''-'' # replicate 4300 (CHR ''9'')],
         stdout = [], fs = Map.empty\<rparr>)) ''data/config.json''
       = Some (File
          (''{\<newline>'' @
           ''  \"wifi\": {\<newline>'' @
           ''    \"ssid\": \"HomeNet\",\<newline>'' @
           ''    \"password\": \"secret123\"\<newline>'' @
           ''  },\<newline>'' @
           ''  \"server\": {\<newline>'' @
           ''    \"url\": \"http://httpbin.org/image/jpeg\"\<newline>'' @
           ''  },\<newline>'' @
           ''  \"weather\": {\<newline>'' @
           ''    \"latitude\": \"47.6062\",\<newline>'' @
           ''    \"longitude\": \"-122.3321\",\<newline>'' @
           ''    \"city\": \"Seattle\",\<newline>'' @
           ''    \"units\": \"fahrenheit\"\<newline>'' @
           ''  },\<newline>'' @
           ''  \"update\": {\<newline>'' @
           ''    \"refreshMs\": ''))"
proof -
  have k: "0 < int_max_str_digits" "int_max_str_digits \<le> int_max_str_digits"
    by (simp_all add: int_max_str_digits_def)
  have sg: "''-'' = [] \<or> ''-'' = ''+'' \<or> ''-'' = ''-''" by simp
  have d: "Map.empty ''data'' = None \<or> Map.empty ''data'' = Some Dir" by simp
  have c: "Map.empty ''data/config.json'' \<noteq> Some Dir" by simp
  have a: "''-'' @ replicate 4300 (CHR ''9'') = CHR ''-'' # replicate 4300 (CHR ''9'')"
    by (simp only: append_Cons append_Nil)
  note n0 = nines_run(1) [OF k limit_exceeded sg d c,
      unfolded int_max_str_digits_def a]
  have n1: "py_int (CHR ''-'' # replicate 4300 (CHR ''9'')) = Inr (- (10 ^ 4300 - 1))"
    using n0 by (simp only: refl if_True)
  note n2 = nines_run(2) [OF k limit_exceeded sg d c, of "[]",
      unfolded int_max_str_digits_def a]
  from n2 obtain w' where m: "main
        \<lparr>stdin = [''HomeNet'', ''secret123'', '''', '''', '''', '''', '''',
                  CHR ''-'' # replicate 4300 (CHR ''9'')],
         stdout = [], fs = Map.empty\<rparr> = (Inl ValueError, w')"
    and f: "fs w' = [''data'' \<mapsto> Dir,
                      ''data/config.json'' \<mapsto> File
                        (''{\<newline>'' @
           ''  \"wifi\": {\<newline>'' @
           ''    \"ssid\": \"HomeNet\",\<newline>'' @
           ''    \"password\": \"secret123\"\<newline>'' @
           ''  },\<newline>'' @
           ''  \"server\": {\<newline>'' @
           ''    \"url\": \"http://httpbin.org/image/jpeg\"\<newline>'' @
           ''  },\<newline>'' @
           ''  \"weather\": {\<newline>'' @
           ''    \"latitude\": \"47.6062\",\<newline>'' @
           ''    \"longitude\": \"-122.3321\",\<newline>'' @
           ''    \"city\": \"Seattle\",\<newline>'' @
           ''    \"units\": \"fahrenheit\"\<newline>'' @
           ''  },\<newline>'' @
           ''  \"update\": {\<newline>'' @
           ''    \"refreshMs\": '')]"
    by blast
  have fl: "fs w' ''data/config.json'' = Some (File
          (''{\<newline>'' @
           ''  \"wifi\": {\<newline>'' @
           ''    \"ssid\": \"HomeNet\",\<newline>'' @
           ''    \"password\": \"secret123\"\<newline>'' @
           ''  },\<newline>'' @
           ''  \"server\": {\<newline>'' @
           ''    \"url\": \"http://httpbin.org/image/jpeg\"\<newline>'' @
           ''  },\<newline>'' @
           ''  \"weather\": {\<newline>'' @
           ''    \"latitude\": \"47.6062\",\<newline>'' @
           ''    \"longitude\": \"-122.3321\",\<newline>'' @
           ''    \"city\": \"Seattle\",\<newline>'' @
           ''    \"units\": \"fahrenheit\"\<newline>'' @
           ''  },\<newline>'' @
           ''  \"update\": {\<newline>'' @
           ''    \"refreshMs\": ''))"
    unfolding f by (rule fun_upd_same)
  show ?thesis
    unfolding m fst_conv snd_conv using n1 fl by (intro conjI) (rule refl | assumption)+
qed

text \<open>
  C6. End to end: with the answers \<open>HomeNet\<close> and \<open>secret123\<close> and six empty lines,
  on a file system where \<open>data\<close> is not a file and \<open>data/config.json\<close> is not a
  directory, the run ends normally and \<open>data/config.json\<close> holds the dump of the
  configuration with the server URL, city, latitude, longitude and units at their
  defaults, \<open>update.refreshMs = 86400000\<close>, \<open>display.width = 1200\<close>,
  \<open>display.sidebarWidthPct = 20\<close> and \<open>hardware.wakeButtonPin = 36\<close>.
\<close>

theorem end_to_end_defaults:
  assumes "f ''data'' = None \<or> f ''data'' = Some Dir"
      and "f ''data/config.json'' \<noteq> Some Dir"
  shows "\<exists>cfg w1 w'.
           main_collect
             \<lparr>stdin = [''HomeNet'', ''secret123'', '''', '''', '''', '''', '''', ''''],
              stdout = out, fs = f\<rparr> = (Inr cfg, w1)
         \<and> main
             \<lparr>stdin = [''HomeNet'', ''secret123'', '''', '''', '''', '''', '''', ''''],
              stdout = out, fs = f\<rparr> = (Inr (), w')
         \<and> fs w' ''data/config.json'' = Some (File (json_dumps cfg))
         \<and> lookup cfg [''wifi'', ''ssid''] = Some (JStr ''HomeNet'')
         \<and> lookup cfg [''wifi'', ''password''] = Some (JStr ''secret123'')
         \<and> lookup cfg [''server'', ''url''] = Some (JStr ''http://httpbin.org/image/jpeg'')
         \<and> lookup cfg [''weather'', ''city''] = Some (JStr ''Seattle'')
         \<and> lookup cfg [''weather'', ''latitude''] = Some (JStr ''47.6062'')
         \<and> lookup cfg [''weather'', ''longitude''] = Some (JStr ''-122.3321'')
         \<and> lookup cfg [''weather'', ''units''] = Some (JStr ''fahrenheit'')
         \<and> lookup cfg [''update'', ''refreshMs''] = Some (JInt 86400000)
         \<and> lookup cfg [''display'', ''width''] = Some (JInt 1200)
         \<and> lookup cfg [''display'', ''sidebarWidthPct''] = Some (JInt 20)
         \<and> lookup cfg [''hardware'', ''wakeButtonPin''] = Some (JInt 36)"
proof -
  have e: "strip '''' = []" by (simp add: strip_def)
  have b: "\<forall>b \<in> set ([] :: string list). strip b = []" by simp
  have s1: "strip ''HomeNet'' = ''HomeNet''" and s2: "strip ''secret123'' = ''secret123''"
    by (simp_all add: strip_def isspace_def)
  have l1: "strip ''HomeNet'' \<noteq> []" by (simp add: s1)
  have l2: "strip ''secret123'' \<noteq> []" by (simp add: s2)
  have h: "py_int (if strip '''' \<noteq> [] then strip '''' else ''24'') = Inr 24"
    by (simp add: e py_int_def int_space_def digits_def digit_val_def int_max_str_digits_def)
  have t: "int_str (24 * 3600000) = Inr ''86400000''"
    by (simp add: int_str_day)
  from main_run [OF b l1 b l2 h t assms, of "''''" "''''" "''''" "''''" "''''" "[]" out]
  obtain cfg w1 w' where r:
    "main_collect
       \<lparr>stdin = [''HomeNet'', ''secret123'', '''', '''', '''', '''', '''', ''''],
              stdout = out, fs = f\<rparr> = (Inr cfg, w1)"
    "main
       \<lparr>stdin = [''HomeNet'', ''secret123'', '''', '''', '''', '''', '''', ''''],
              stdout = out, fs = f\<rparr> = (Inr (), w')"
    "fs w' = f(''data'' \<mapsto> Dir, ''data/config.json'' \<mapsto> File (json_dumps cfg))"
    "lookup cfg [''wifi'', ''ssid''] = Some (JStr ''HomeNet'')"
    "lookup cfg [''wifi'', ''password''] = Some (JStr ''secret123'')"
    "lookup cfg [''server'', ''url''] = Some (JStr ''http://httpbin.org/image/jpeg'')"
    "lookup cfg [''weather'', ''city''] = Some (JStr ''Seattle'')"
    "lookup cfg [''weather'', ''latitude''] = Some (JStr ''47.6062'')"
    "lookup cfg [''weather'', ''longitude''] = Some (JStr ''-122.3321'')"
    "lookup cfg [''weather'', ''units''] = Some (JStr ''fahrenheit'')"
    "lookup cfg [''update'', ''refreshMs''] = Some (JInt 86400000)"
    "lookup cfg [''display'', ''width''] = Some (JInt 1200)"
    "lookup cfg [''display'', ''sidebarWidthPct''] = Some (JInt 20)"
    "lookup cfg [''hardware'', ''wakeButtonPin''] = Some (JInt 36)"
    unfolding e s1 s2 by (elim exE conjE) simp
  have "fs w' ''data/config.json'' = Some (File (json_dumps cfg))"
    by (simp add: r(3))
  with r(1,2) r(4-14) show ?thesis by blast
qed

text \<open>The same run on an empty file system, with the text of the file it writes.\<close>

theorem end_to_end_defaults_witness:
  "\<exists>cfg w1 w'.
     main_collect
       \<lparr>stdin = [''HomeNet'', ''secret123'', '''', '''', '''', '''', '''', ''''],
        stdout = [], fs = Map.empty\<rparr> = (Inr cfg, w1)
   \<and> main
       \<lparr>stdin = [''HomeNet'', ''secret123'', '''', '''', '''', '''', '''', ''''],
        stdout = [], fs = Map.empty\<rparr> = (Inr (), w')
   \<and> fs w' ''data/config.json'' = Some (File (json_dumps cfg))
   \<and> json_dumps cfg =
           ''{\<newline>'' @
           ''  \"wifi\": {\<newline>'' @
           ''    \"ssid\": \"HomeNet\",\<newline>'' @
           ''    \"password\": \"secret123\"\<newline>'' @
           ''  },\<newline>'' @
           ''  \"server\": {\<newline>'' @
           ''    \"url\": \"http://httpbin.org/image/jpeg\"\<newline>'' @
           ''  },\<newline>'' @
           ''  \"weather\": {\<newline>'' @
           ''    \"latitude\": \"47.6062\",\<newline>'' @
           ''    \"longitude\": \"-122.3321\",\<newline>'' @
           ''    \"city\": \"Seattle\",\<newline>'' @
           ''    \"units\": \"fahrenheit\"\<newline>'' @
           ''  },\<newline>'' @
           ''  \"update\": {\<newline>'' @
           ''    \"refreshMs\": 86400000\<newline>'' @
           ''  },\<newline>'' @
           ''  \"display\": {\<newline>'' @
           ''    \"width\": 1200,\<newline>'' @
           ''    \"sidebarWidthPct\": 20\<newline>'' @
           ''  },\<newline>'' @
           ''  \"hardware\": {\<newline>'' @
           ''    \"wakeButtonPin\": 36\<newline>'' @
           ''  }\<newline>'' @
           ''}''
   \<and> lookup cfg [''server'', ''url''] = Some (JStr ''http://httpbin.org/image/jpeg'')
   \<and> lookup cfg [''weather'', ''city''] = Some (JStr ''Seattle'')
   \<and> lookup cfg [''weather'', ''latitude''] = Some (JStr ''47.6062'')
   \<and> lookup cfg [''weather'', ''longitude''] = Some (JStr ''-122.3321'')
   \<and> lookup cfg [''weather'', ''units''] = Some (JStr ''fahrenheit'')
   \<and> lookup cfg [''update'', ''refreshMs''] = Some (JInt 86400000)
   \<and> lookup cfg [''display'', ''width''] = Some (JInt 1200)
   \<and> lookup cfg [''display'', ''sidebarWidthPct''] = Some (JInt 20)
   \<and> lookup cfg [''hardware'', ''wakeButtonPin''] = Some (JInt 36)"
proof -
  have d: "Map.empty ''data'' = None \<or> Map.empty ''data'' = Some Dir" by simp
  have c: "Map.empty ''data/config.json'' \<noteq> Some Dir" by simp
  have e: "strip '''' = []" by (simp add: strip_def)
  have b: "\<forall>b \<in> set ([] :: string list). strip b = []" by simp
  have s1: "strip ''HomeNet'' = ''HomeNet''" and s2: "strip ''secret123'' = ''secret123''"
    by (simp_all add: strip_def isspace_def)
  have l1: "strip ''HomeNet'' \<noteq> []" by (simp add: s1)
  have l2: "strip ''secret123'' \<noteq> []" by (simp add: s2)
  have mc: "fst (main_collect
       \<lparr>stdin = [''HomeNet'', ''secret123'', '''', '''', '''', '''', '''', ''''],
        stdout = [], fs = Map.empty\<rparr>)
     = Inr (JObj
      [(''wifi'', JObj [(''ssid'', JStr ''HomeNet''), (''password'', JStr ''secret123'')]),
       (''server'', JObj [(''url'', JStr ''http://httpbin.org/image/jpeg'')]),
       (''weather'',
          JObj [(''latitude'', JStr ''47.6062''), (''longitude'', JStr ''-122.3321''),
                (''city'', JStr ''Seattle''), (''units'', JStr ''fahrenheit'')]),
       (''update'', JObj [(''refreshMs'', JInt 86400000)]),
       (''display'', JObj [(''width'', JInt 1200), (''sidebarWidthPct'', JInt 20)]),
       (''hardware'', JObj [(''wakeButtonPin'', JInt 36)])])"
    using main_collect_run
      [OF b l1 b l2, of "''''" "''''" "''''" "''''" "''''" "''''" "[]" "[]" Map.empty]
    by (simp add: e s1 s2 py_int_def int_space_def digits_def digit_val_def int_max_str_digits_def)
  from end_to_end_defaults [OF d c, of "[]"] obtain cfg w1 w' where r:
    "main_collect
       \<lparr>stdin = [''HomeNet'', ''secret123'', '''', '''', '''', '''', '''', ''''],
        stdout = [], fs = Map.empty\<rparr> = (Inr cfg, w1)"
    "main
       \<lparr>stdin = [''HomeNet'', ''secret123'', '''', '''', '''', '''', '''', ''''],
        stdout = [], fs = Map.empty\<rparr> = (Inr (), w')"
    "fs w' ''data/config.json'' = Some (File (json_dumps cfg))"
    "lookup cfg [''server'', ''url''] = Some (JStr ''http://httpbin.org/image/jpeg'')"
    "lookup cfg [''weather'', ''city''] = Some (JStr ''Seattle'')"
    "lookup cfg [''weather'', ''latitude''] = Some (JStr ''47.6062'')"
    "lookup cfg [''weather'', ''longitude''] = Some (JStr ''-122.3321'')"
    "lookup cfg [''weather'', ''units''] = Some (JStr ''fahrenheit'')"
    "lookup cfg [''update'', ''refreshMs''] = Some (JInt 86400000)"
    "lookup cfg [''display'', ''width''] = Some (JInt 1200)"
    "lookup cfg [''display'', ''sidebarWidthPct''] = Some (JInt 20)"
    "lookup cfg [''hardware'', ''wakeButtonPin''] = Some (JInt 36)"
    by blast
  from r(1) mc have "cfg = JObj
      [(''wifi'', JObj [(''ssid'', JStr ''HomeNet''), (''password'', JStr ''secret123'')]),
       (''server'', JObj [(''url'', JStr ''http://httpbin.org/image/jpeg'')]),
       (''weather'',
          JObj [(''latitude'', JStr ''47.6062''), (''longitude'', JStr ''-122.3321''),
                (''city'', JStr ''Seattle''), (''units'', JStr ''fahrenheit'')]),
       (''update'', JObj [(''refreshMs'', JInt 86400000)]),
       (''display'', JObj [(''width'', JInt 1200), (''sidebarWidthPct'', JInt 20)]),
       (''hardware'', JObj [(''wakeButtonPin'', JInt 36)])]"
    by simp
  then have "json_dumps cfg =
           ''{\<newline>'' @
           ''  \"wifi\": {\<newline>'' @
           ''    \"ssid\": \"HomeNet\",\<newline>'' @
           ''    \"password\": \"secret123\"\<newline>'' @
           ''  },\<newline>'' @
           ''  \"server\": {\<newline>'' @
           ''    \"url\": \"http://httpbin.org/image/jpeg\"\<newline>'' @
           ''  },\<newline>'' @
           ''  \"weather\": {\<newline>'' @
           ''    \"latitude\": \"47.6062\",\<newline>'' @
           ''    \"longitude\": \"-122.3321\",\<newline>'' @
           ''    \"city\": \"Seattle\",\<newline>'' @
           ''    \"units\": \"fahrenheit\"\<newline>'' @
           ''  },\<newline>'' @
           ''  \"update\": {\<newline>'' @
           ''    \"refreshMs\": 86400000\<newline>'' @
           ''  },\<newline>'' @
           ''  \"display\": {\<newline>'' @
           ''    \"width\": 1200,\<newline>'' @
           ''    \"sidebarWidthPct\": 20\<newline>'' @
           ''  },\<newline>'' @
           ''  \"hardware\": {\<newline>'' @
           ''    \"wakeButtonPin\": 36\<newline>'' @
           ''  }\<newline>'' @
           ''}''"
    by (simp only: homenet_dump(1))
  with r show ?thesis by blast
qed

text \<open>
  C5, as amended. Whatever the input and the file system, a run of \<open>main\<close> either leaves
  the file system as it was, or it has built the whole configuration first, all six
  groups, with the SSID, the password and the five defaulted strings non-empty and
  without touching the file system while doing so. The file system then differs from
  the initial one by the directory \<open>data\<close> alone, or by that directory and the file
  \<open>data/config.json\<close>. The file holds the whole text, laid out as the specification
  says, when \<open>refreshMs\<close> has no more digits than the interpreter converts to text
  (4300). When it has more, the run ends in \<open>ValueError\<close> and the file holds the text up
  to \<^verbatim>\<open>"refreshMs":\<close> only: the object was complete, the file written is not.
\<close>

theorem config_complete_before_any_write:
  assumes "main w = (r, w')"
  shows "fs w' = fs w
       \<or> (\<exists>ssid password url lat lon city units ms cfg w1.
             cfg = JObj
               [(''wifi'', JObj [(''ssid'', JStr ssid), (''password'', JStr password)]),
                (''server'', JObj [(''url'', JStr url)]),
                (''weather'',
                   JObj [(''latitude'', JStr lat), (''longitude'', JStr lon),
                         (''city'', JStr city), (''units'', JStr units)]),
                (''update'', JObj [(''refreshMs'', JInt ms)]),
                (''display'', JObj [(''width'', JInt 1200), (''sidebarWidthPct'', JInt 20)]),
                (''hardware'', JObj [(''wakeButtonPin'', JInt 36)])]
           \<and> ssid \<noteq> [] \<and> password \<noteq> [] \<and> url \<noteq> [] \<and> lat \<noteq> [] \<and> lon \<noteq> []
           \<and> city \<noteq> [] \<and> units \<noteq> []
           \<and> main_collect w = (Inr cfg, w1) \<and> fs w1 = fs w
           \<and> (fs w' = (fs w)(''data'' \<mapsto> Dir)
              \<or> (\<bar>ms\<bar> < 10 ^ int_max_str_digits
                 \<and> fs w' = (fs w)(''data'' \<mapsto> Dir,
                      ''data/config.json'' \<mapsto> File
                        (spec_file_prefix ssid password url lat lon city units
                         @ int_repr ms @ spec_file_suffix)))
              \<or> (10 ^ int_max_str_digits \<le> \<bar>ms\<bar> \<and> r = Inl ValueError
                 \<and> fs w' = (fs w)(''data'' \<mapsto> Dir,
                      ''data/config.json'' \<mapsto> File
                        (spec_file_prefix ssid password url lat lon city units)))))"
proof -
  obtain x w1 where mc: "main_collect w = (x, w1)" by fastforce
  have "fs (snd (main_collect w)) = fs w"
    using keeps_fs_main_collect unfolding keeps_fs_def by (rule spec)
  then have k: "fs w1 = fs w" by (simp add: mc)
  show ?thesis
  proof (cases x)
    case (Inl e)
    with mc assms have "w' = w1" by (simp add: main_eq)
    with k show ?thesis by simp
  next
    case (Inr cfg)
    with mc have c: "main_collect w = (Inr cfg, w1)" by simp
    with assms have p: "main_persist cfg w1 = (r, w')" by (simp add: main_eq)
    from main_collect_shape [OF c] obtain ssid password url lat lon city units ms where
      shape: "cfg = JObj
               [(''wifi'', JObj [(''ssid'', JStr ssid), (''password'', JStr password)]),
                (''server'', JObj [(''url'', JStr url)]),
                (''weather'',
                   JObj [(''latitude'', JStr lat), (''longitude'', JStr lon),
                         (''city'', JStr city), (''units'', JStr units)]),
                (''update'', JObj [(''refreshMs'', JInt ms)]),
                (''display'', JObj [(''width'', JInt 1200), (''sidebarWidthPct'', JInt 20)]),
                (''hardware'', JObj [(''wakeButtonPin'', JInt 36)])]"
      and ne: "ssid \<noteq> []" "password \<noteq> []" "url \<noteq> []" "lat \<noteq> []" "lon \<noteq> []"
        "city \<noteq> []" "units \<noteq> []"
      by blast
    have em: "emit 0 cfg
        = (case int_str ms of
             Inl e \<Rightarrow> (spec_file_prefix ssid password url lat lon city units, Some e)
           | Inr t \<Rightarrow>
               (spec_file_prefix ssid password url lat lon city units @ t @ spec_file_suffix,
                None))"
      unfolding shape by (rule emit_config)
    from main_persist_fs_effect [OF p, unfolded k]
    consider (same) "fs w' = fs w" | (dir) "fs w' = (fs w)(''data'' \<mapsto> Dir)"
      | (written) "fs w' = (fs w)(''data'' \<mapsto> Dir, ''data/config.json'' \<mapsto> File (json_dumps cfg))"
          "r = (case json_error cfg of None \<Rightarrow> Inr () | Some e \<Rightarrow> Inl e)"
      by (elim disjE conjE)
    then show ?thesis
    proof cases
      case same
      then show ?thesis by simp
    next
      case dir
      show ?thesis
        apply (rule disjI2)
        apply (rule exI [of _ ssid], rule exI [of _ password], rule exI [of _ url])
        apply (rule exI [of _ lat], rule exI [of _ lon], rule exI [of _ city])
        apply (rule exI [of _ units], rule exI [of _ ms], rule exI [of _ cfg])
        apply (rule exI [of _ w1])
        apply (intro conjI shape ne c k)
        apply (rule disjI1, rule dir)
        done
    next
      case written
      show ?thesis
      proof (cases "\<bar>ms\<bar> < 10 ^ int_max_str_digits")
        case True
        then have "int_str ms = Inr (int_repr ms)" by (simp only: int_str_iff if_True)
        then have "json_dumps cfg
            = spec_file_prefix ssid password url lat lon city units @ int_repr ms
              @ spec_file_suffix"
          by (simp add: json_dumps_def em)
        with written(1) have w: "fs w' = (fs w)(''data'' \<mapsto> Dir,
                      ''data/config.json'' \<mapsto> File
                        (spec_file_prefix ssid password url lat lon city units
                         @ int_repr ms @ spec_file_suffix))"
          by simp
        show ?thesis
          apply (rule disjI2)
          apply (rule exI [of _ ssid], rule exI [of _ password], rule exI [of _ url])
          apply (rule exI [of _ lat], rule exI [of _ lon], rule exI [of _ city])
          apply (rule exI [of _ units], rule exI [of _ ms], rule exI [of _ cfg])
          apply (rule exI [of _ w1])
          apply (intro conjI shape ne c k)
          apply (rule disjI2, rule disjI1)
          apply (rule conjI, rule True, rule w)
          done
      next
        case False
        then have big: "10 ^ int_max_str_digits \<le> \<bar>ms\<bar>" by simp
        from False have i: "int_str ms = Inl ValueError" by (simp only: int_str_iff if_False)
        then have "json_dumps cfg = spec_file_prefix ssid password url lat lon city units"
          and "json_error cfg = Some ValueError"
          by (simp_all add: json_dumps_def json_error_def em)
        with written have w: "fs w' = (fs w)(''data'' \<mapsto> Dir,
                      ''data/config.json'' \<mapsto> File
                        (spec_file_prefix ssid password url lat lon city units))"
          and e: "r = Inl ValueError"
          by simp_all
        show ?thesis
          apply (rule disjI2)
          apply (rule exI [of _ ssid], rule exI [of _ password], rule exI [of _ url])
          apply (rule exI [of _ lat], rule exI [of _ lon], rule exI [of _ city])
          apply (rule exI [of _ units], rule exI [of _ ms], rule exI [of _ cfg])
          apply (rule exI [of _ w1])
          apply (intro conjI shape ne c k)
          apply (rule disjI2, rule disjI2)
          apply (intro conjI big e w)
          done
      qed
    qed
  qed
qed

theorem config_complete_before_any_write_witness:
  "\<exists>w'.
     main \<lparr>stdin = [''HomeNet'', ''secret123'', '''', '''', '''', '''', '''', ''''],
           stdout = [], fs = Map.empty\<rparr> = (Inr (), w')
   \<and> fs w' ''data/config.json'' \<noteq> None
   \<and> (fs w' = Map.empty
      \<or> (\<exists>ssid password url lat lon city units ms cfg w1.
             cfg = JObj
               [(''wifi'', JObj [(''ssid'', JStr ssid), (''password'', JStr password)]),
                (''server'', JObj [(''url'', JStr url)]),
                (''weather'',
                   JObj [(''latitude'', JStr lat), (''longitude'', JStr lon),
                         (''city'', JStr city), (''units'', JStr units)]),
                (''update'', JObj [(''refreshMs'', JInt ms)]),
                (''display'', JObj [(''width'', JInt 1200), (''sidebarWidthPct'', JInt 20)]),
                (''hardware'', JObj [(''wakeButtonPin'', JInt 36)])]
           \<and> ssid \<noteq> [] \<and> password \<noteq> [] \<and> url \<noteq> [] \<and> lat \<noteq> [] \<and> lon \<noteq> []
           \<and> city \<noteq> [] \<and> units \<noteq> []
           \<and> main_collect
                 \<lparr>stdin = [''HomeNet'', ''secret123'', '''', '''', '''', '''', '''', ''''],
                  stdout = [], fs = Map.empty\<rparr> = (Inr cfg, w1)
           \<and> fs w1 = Map.empty
           \<and> (fs w' = [''data'' \<mapsto> Dir]
              \<or> (\<bar>ms\<bar> < 10 ^ int_max_str_digits
                 \<and> fs w' = [''data'' \<mapsto> Dir,
                      ''data/config.json'' \<mapsto> File
                        (spec_file_prefix ssid password url lat lon city units
                         @ int_repr ms @ spec_file_suffix)])
              \<or> (10 ^ int_max_str_digits \<le> \<bar>ms\<bar> \<and> (Inr () :: error + unit) = Inl ValueError
                 \<and> fs w' = [''data'' \<mapsto> Dir,
                      ''data/config.json'' \<mapsto> File
                        (spec_file_prefix ssid password url lat lon city units)]))))"
proof -
  let ?W = "\<lparr>stdin = [''HomeNet'', ''secret123'', '''', '''', '''', '''', '''', ''''],
            stdout = [], fs = Map.empty\<rparr>"
  have b: "\<forall>b \<in> set ([] :: string list). strip b = []" by simp
  have l1: "strip ''HomeNet'' \<noteq> []" and l2: "strip ''secret123'' \<noteq> []"
    by (simp_all add: strip_def isspace_def)
  have h: "py_int (if strip '''' \<noteq> [] then strip '''' else ''24'') = Inr 24"
    by (simp add: strip_def py_int_def int_space_def digits_def digit_val_def
          int_max_str_digits_def)
  have t: "int_str (24 * 3600000) = Inr ''86400000''"
    by (simp add: int_str_day)
  have d: "Map.empty ''data'' = None \<or> Map.empty ''data'' = Some Dir" by simp
  have c: "Map.empty ''data/config.json'' \<noteq> Some Dir" by simp
  from main_run [OF b l1 b l2 h t d c, of "''''" "''''" "''''" "''''" "''''" "[]" "[]",
      unfolded append_Nil]
  obtain cfg w' where m: "main ?W = (Inr (), w')"
    and f: "fs w' = [''data'' \<mapsto> Dir, ''data/config.json'' \<mapsto> File (json_dumps cfg)]"
    by blast
  have n: "fs w' ''data/config.json'' \<noteq> None" by (simp add: f)
  note t = config_complete_before_any_write [OF m, unfolded world.simps]
  from m n t show ?thesis by (intro exI [of _ w'] conjI)
qed

text \<open>
  The claim as written, that no partial configuration is ever written: with a plus sign
  and 4300 nines as refresh hours and an earlier file in place, the run ends in
  \<open>ValueError\<close>, and the file no longer holds its earlier contents but the new text up
  to \<^verbatim>\<open>"refreshMs":\<close>, without the number and without the groups that follow it.
\<close>

theorem truncated_file_counterexample:
  "fst (main
        \<lparr>stdin = [''HomeNet'', ''secret123'', '''', '''', '''', '''', '''',
                  CHR ''+'' # replicate 4300 (CHR ''9'')],
         stdout = [],
         fs = [''data'' \<mapsto> Dir, ''data/config.json'' \<mapsto> File ''old'']\<rparr>) = Inl ValueError
   \<and> fs (snd (main
        \<lparr>stdin = [''HomeNet'', ''secret123'', '''', '''', '''', '''', '''',
                  CHR ''+'' # replicate 4300 (CHR ''9'')],
         stdout = [],
         fs = [''data'' \<mapsto> Dir, ''data/config.json'' \<mapsto> File ''old'']\<rparr>))
        ''data/config.json''
       = Some (File
          (''{\<newline>'' @
           ''  \"wifi\": {\<newline>'' @
           ''    \"ssid\": \"HomeNet\",\<newline>'' @
           ''    \"password\": \"secret123\"\<newline>'' @
           ''  },\<newline>'' @
           ''  \"server\": {\<newline>'' @
           ''    \"url\": \"http://httpbin.org/image/jpeg\"\<newline>'' @
           ''  },\<newline>'' @
           ''  \"weather\": {\<newline>'' @
           ''    \"latitude\": \"47.6062\",\<newline>'' @
           ''    \"longitude\": \"-122.3321\",\<newline>'' @
           ''    \"city\": \"Seattle\",\<newline>'' @
           ''    \"units\": \"fahrenheit\"\<newline>'' @
           ''  },\<newline>'' @
           ''  \"update\": {\<newline>'' @
           ''    \"refreshMs\": ''))"
proof -
  let ?f = "[''data'' \<mapsto> Dir, ''data/config.json'' \<mapsto> File ''old'']"
  have k: "0 < int_max_str_digits" "int_max_str_digits \<le> int_max_str_digits"
    by (simp_all add: int_max_str_digits_def)
  have sg: "''+'' = [] \<or> ''+'' = ''+'' \<or> ''+'' = ''-''" by simp
  have d: "?f ''data'' = None \<or> ?f ''data'' = Some Dir" by simp
  have c: "?f ''data/config.json'' \<noteq> Some Dir" by simp
  have a: "''+'' @ replicate 4300 (CHR ''9'') = CHR ''+'' # replicate 4300 (CHR ''9'')"
    by (simp only: append_Cons append_Nil)
  note n2 = nines_run(2) [OF k limit_exceeded sg d c, of "[]",
      unfolded int_max_str_digits_def a]
  from n2 obtain w' where m: "main
        \<lparr>stdin = [''HomeNet'', ''secret123'', '''', '''', '''', '''', '''',
                  CHR ''+'' # replicate 4300 (CHR ''9'')],
         stdout = [], fs = ?f\<rparr> = (Inl ValueError, w')"
    and f: "fs w' = ?f(''data'' \<mapsto> Dir,
                      ''data/config.json'' \<mapsto> File
                        (''{\<newline>'' @
           ''  \"wifi\": {\<newline>'' @
           ''    \"ssid\": \"HomeNet\",\<newline>'' @
           ''    \"password\": \"secret123\"\<newline>'' @
           ''  },\<newline>'' @
           ''  \"server\": {\<newline>'' @
           ''    \"url\": \"http://httpbin.org/image/jpeg\"\<newline>'' @
           ''  },\<newline>'' @
           ''  \"weather\": {\<newline>'' @
           ''    \"latitude\": \"47.6062\",\<newline>'' @
           ''    \"longitude\": \"-122.3321\",\<newline>'' @
           ''    \"city\": \"Seattle\",\<newline>'' @
           ''    \"units\": \"fahrenheit\"\<newline>'' @
           ''  },\<newline>'' @
           ''  \"update\": {\<newline>'' @
           ''    \"refreshMs\": ''))"
    by blast
  have fl: "fs w' ''data/config.json'' = Some (File
          (''{\<newline>'' @
           ''  \"wifi\": {\<newline>'' @
           ''    \"ssid\": \"HomeNet\",\<newline>'' @
           ''    \"password\": \"secret123\"\<newline>'' @
           ''  },\<newline>'' @
           ''  \"server\": {\<newline>'' @
           ''    \"url\": \"http://httpbin.org/image/jpeg\"\<newline>'' @
           ''  },\<newline>'' @
           ''  \"weather\": {\<newline>'' @
           ''    \"latitude\": \"47.6062\",\<newline>'' @
           ''    \"longitude\": \"-122.3321\",\<newline>'' @
           ''    \"city\": \"Seattle\",\<newline>'' @
           ''    \"units\": \"fahrenheit\"\<newline>'' @
           ''  },\<newline>'' @
           ''  \"update\": {\<newline>'' @
           ''    \"refreshMs\": ''))"
    unfolding f by (rule fun_upd_same)
  show ?thesis
    unfolding m fst_conv snd_conv using fl by (intro conjI) (rule refl | assumption)+
qed

text \<open>
  C8. The file written is a function of the input lines: two runs that read the same
  lines and both end normally, from any two file systems and with anything printed
  before, leave the same contents in \<open>data/config.json\<close>.
\<close>

theorem same_input_same_file:
  assumes "stdin w1 = stdin w2"
      and "main w1 = (Inr (), w1')" and "main w2 = (Inr (), w2')"
  shows "\<exists>content.
           fs w1' ''data/config.json'' = Some (File content)
         \<and> fs w2' ''data/config.json'' = Some (File content)"
proof -
  have split_run: "\<exists>cfg v. main_collect w = (Inr cfg, v) \<and> main_persist cfg v = (Inr (), w')"
    if "main w = (Inr (), w')" for w w'
  proof -
    obtain x v where mc: "main_collect w = (x, v)" by fastforce
    show ?thesis
    proof (cases x)
      case (Inl e)
      with mc that show ?thesis by (simp add: main_eq)
    next
      case (Inr cfg)
      with mc that show ?thesis by (simp add: main_eq)
    qed
  qed
  from split_run [OF assms(2)] obtain cfg1 v1 where c1: "main_collect w1 = (Inr cfg1, v1)"
    and p1: "main_persist cfg1 v1 = (Inr (), w1')" by blast
  from split_run [OF assms(3)] obtain cfg2 v2 where c2: "main_collect w2 = (Inr cfg2, v2)"
    and p2: "main_persist cfg2 v2 = (Inr (), w2')" by blast
  from main_collect_same_config [OF assms(1)] have "cfg1 = cfg2" by (simp add: c1 c2)
  with main_persist_success(1) [OF p1] main_persist_success(1) [OF p2] show ?thesis by simp
qed

theorem same_input_same_file_witness:
  "\<exists>w1' w2' content.
     main \<lparr>stdin = [''HomeNet'', ''secret123'', '''', '''', '''', '''', '''', ''''],
           stdout = [], fs = Map.empty\<rparr> = (Inr (), w1')
   \<and> main \<lparr>stdin = [''HomeNet'', ''secret123'', '''', '''', '''', '''', '''', ''''],
           stdout = [''earlier output''],
           fs = [''data'' \<mapsto> Dir, ''data/config.json'' \<mapsto> File ''old'']\<rparr> = (Inr (), w2')
   \<and> fs w1' ''data/config.json'' = Some (File content)
   \<and> fs w2' ''data/config.json'' = Some (File content)"
proof -
  let ?W1 = "\<lparr>stdin = [''HomeNet'', ''secret123'', '''', '''', '''', '''', '''', ''''],
             stdout = [], fs = Map.empty\<rparr>"
  let ?W2 = "\<lparr>stdin = [''HomeNet'', ''secret123'', '''', '''', '''', '''', '''', ''''],
             stdout = [''earlier output''],
             fs = [''data'' \<mapsto> Dir, ''data/config.json'' \<mapsto> File ''old'']\<rparr>"
  have b: "\<forall>b \<in> set ([] :: string list). strip b = []" by simp
  have l1: "strip ''HomeNet'' \<noteq> []" and l2: "strip ''secret123'' \<noteq> []"
    by (simp_all add: strip_def isspace_def)
  have h: "py_int (if strip '''' \<noteq> [] then strip '''' else ''24'') = Inr 24"
    by (simp add: strip_def py_int_def int_space_def digits_def digit_val_def int_max_str_digits_def)
  have d1: "Map.empty ''data'' = None \<or> Map.empty ''data'' = Some Dir" by simp
  have c1: "Map.empty ''data/config.json'' \<noteq> Some Dir" by simp
  have d2: "[''data'' \<mapsto> Dir, ''data/config.json'' \<mapsto> File ''old''] ''data'' = None
          \<or> [''data'' \<mapsto> Dir, ''data/config.json'' \<mapsto> File ''old''] ''data'' = Some Dir"
    by simp
  have c2: "[''data'' \<mapsto> Dir, ''data/config.json'' \<mapsto> File ''old''] ''data/config.json''
          \<noteq> Some Dir"
    by simp
  have t: "int_str (24 * 3600000) = Inr ''86400000''"
    by (simp add: int_str_day)
  from main_run [OF b l1 b l2 h t d1 c1, of "''''" "''''" "''''" "''''" "''''" "[]" "[]",
      unfolded append_Nil]
  obtain w1' where m1: "main ?W1 = (Inr (), w1')" by blast
  from main_run [OF b l1 b l2 h t d2 c2, of "''''" "''''" "''''" "''''" "''''" "[]"
      "[''earlier output'']", unfolded append_Nil]
  obtain w2' where m2: "main ?W2 = (Inr (), w2')" by blast
  have e: "stdin ?W1 = stdin ?W2" by simp
  from same_input_same_file [OF e m1 m2] m1 m2 show ?thesis by blast
qed

end
